theory Spec2Isabelle
  imports Main "HOL-Library.Sublist"
begin

section \<open>Python strings\<close>

text \<open>
  A Python \<^verbatim>\<open>str\<close> is modelled as a \<^typ>\<open>string\<close> whose characters are the code
  points below 256.  The predicates below are the ones \<^verbatim>\<open>str.strip\<close>,
  \<^verbatim>\<open>str.split\<close> and the \<^verbatim>\<open>re\<close> module use on that range.
\<close>

definition code_point :: "char \<Rightarrow> nat" where
  "code_point c = of_char c"

text \<open>\<^verbatim>\<open>str.isspace\<close>, which is also the regular expression class \<^verbatim>\<open>\s\<close>:
  U+0009..U+000D, U+001C..U+0020, U+0085, U+00A0.\<close>

definition is_space :: "char \<Rightarrow> bool" where
  "is_space c =
     (let n = code_point c
      in (9 \<le> n \<and> n \<le> 13) \<or> (28 \<le> n \<and> n \<le> 32) \<or> n = 133 \<or> n = 160)"

text \<open>The classes \<^verbatim>\<open>[a-zA-Z]\<close>, \<^verbatim>\<open>[0-9]\<close>, \<^verbatim>\<open>[a-zA-Z0-9_-]\<close>,
  \<^verbatim>\<open>[a-zA-Z0-9-]\<close> and \<^verbatim>\<open>[a-zA-Z0-9]\<close>.\<close>

definition is_ascii_letter :: "char \<Rightarrow> bool" where
  "is_ascii_letter c =
     (let n = code_point c in (65 \<le> n \<and> n \<le> 90) \<or> (97 \<le> n \<and> n \<le> 122))"

definition is_ascii_digit :: "char \<Rightarrow> bool" where
  "is_ascii_digit c = (let n = code_point c in 48 \<le> n \<and> n \<le> 57)"

definition is_name_char :: "char \<Rightarrow> bool" where
  "is_name_char c = (is_ascii_letter c \<or> is_ascii_digit c \<or> c = CHR ''_'' \<or> c = CHR ''-'')"

definition is_element_char :: "char \<Rightarrow> bool" where
  "is_element_char c = (is_ascii_letter c \<or> is_ascii_digit c \<or> c = CHR ''-'')"

definition is_alnum_char :: "char \<Rightarrow> bool" where
  "is_alnum_char c = (is_ascii_letter c \<or> is_ascii_digit c)"

text \<open>The class \<^verbatim>\<open>\w\<close> of a \<^verbatim>\<open>str\<close> pattern: the alphanumeric code points
  (\<^verbatim>\<open>str.isalnum\<close>) and the underscore.\<close>

definition is_word_char :: "char \<Rightarrow> bool" where
  "is_word_char c =
     (let n = code_point c
      in is_ascii_letter c \<or> is_ascii_digit c \<or> c = CHR ''_''
         \<or> n = 170 \<or> n = 178 \<or> n = 179 \<or> n = 181 \<or> n = 185 \<or> n = 186
         \<or> (188 \<le> n \<and> n \<le> 190) \<or> (192 \<le> n \<and> n \<le> 214)
         \<or> (216 \<le> n \<and> n \<le> 246) \<or> (248 \<le> n \<and> n \<le> 255))"

definition newline :: char where
  "newline = CHR 0x0A"

definition carriage_return :: char where
  "carriage_return = CHR 0x0D"

definition tab_char :: char where
  "tab_char = CHR 0x09"

text \<open>\<^verbatim>\<open>s.strip()\<close>\<close>

definition py_strip :: "string \<Rightarrow> string" where
  "py_strip s = rev (dropWhile is_space (rev (dropWhile is_space s)))"

text \<open>\<^verbatim>\<open>s.split()\<close>: the maximal runs of non-space characters, in order.
  \<open>cur\<close> is the run being read.\<close>

fun split_ws :: "string \<Rightarrow> string \<Rightarrow> string list" where
  "split_ws cur [] = (if cur = [] then [] else [cur])"
| "split_ws cur (c # cs) =
     (if is_space c then (if cur = [] then split_ws [] cs else cur # split_ws [] cs)
      else split_ws (cur @ [c]) cs)"

definition py_split :: "string \<Rightarrow> string list" where
  "py_split s = split_ws [] s"

text \<open>\<^verbatim>\<open>sub in s\<close> and \<^verbatim>\<open>s.find(sub, start)\<close> (\<open>-1\<close> when there is no
  occurrence at or after \<open>start\<close>).\<close>

fun find_index_of :: "string \<Rightarrow> string \<Rightarrow> nat option" where
  "find_index_of sub [] = (if sub = [] then Some 0 else None)"
| "find_index_of sub (c # cs) =
     (if prefix sub (c # cs) then Some 0 else map_option Suc (find_index_of sub cs))"

definition py_contains :: "string \<Rightarrow> string \<Rightarrow> bool" where
  "py_contains sub s = (find_index_of sub s \<noteq> None)"

definition py_find :: "string \<Rightarrow> string \<Rightarrow> nat \<Rightarrow> int" where
  "py_find s sub start =
     (if length s < start then - 1
      else case find_index_of sub (drop start s) of
             None \<Rightarrow> - 1
           | Some i \<Rightarrow> int (start + i))"

text \<open>\<^verbatim>\<open>s[start:stop]\<close> for \<open>start \<ge> 0\<close>; a negative \<open>stop\<close> counts from the
  end, as Python's slices do.\<close>

definition py_slice :: "string \<Rightarrow> nat \<Rightarrow> int \<Rightarrow> string" where
  "py_slice s start stop =
     (let n = int (length s);
          e = (if stop < 0 then max 0 (n + stop) else min stop n)
      in if e \<le> int start then [] else take (nat e - start) (drop start s))"

text \<open>\<^verbatim>\<open>s.count(c)\<close> for a single character.\<close>

definition py_count :: "string \<Rightarrow> char \<Rightarrow> nat" where
  "py_count s c = length (filter (\<lambda>d. d = c) s)"

text \<open>\<^verbatim>\<open>s.replace(old, new)\<close> for a single character \<open>old\<close>.\<close>

definition py_replace_char :: "char \<Rightarrow> string \<Rightarrow> string \<Rightarrow> string" where
  "py_replace_char old new s = concat (map (\<lambda>c. if c = old then new else [c]) s)"

text \<open>\<^verbatim>\<open>s.lower()\<close> on the ASCII letters; the source applies it only to strings
  that matched \<^verbatim>\<open>^[a-zA-Z]+$\<close>.\<close>

definition ascii_lower :: "string \<Rightarrow> string" where
  "ascii_lower s =
     map (\<lambda>c. let n = code_point c in if 65 \<le> n \<and> n \<le> 90 then char_of (n + 32) else c) s"

text \<open>\<^verbatim>\<open>str(n)\<close> for a non-negative integer: its decimal digits.\<close>

definition digit_char :: "nat \<Rightarrow> char" where
  "digit_char d = char_of (48 + d)"

fun str_nat :: "nat \<Rightarrow> string" where
  "str_nat n = (if n < 10 then [digit_char n] else str_nat (n div 10) @ [digit_char (n mod 10)])"

declare str_nat.simps [simp del]

text \<open>\<^verbatim>\<open>'\n'.join(lines)\<close>\<close>

fun join_lines :: "string list \<Rightarrow> string" where
  "join_lines [] = []"
| "join_lines [l] = l"
| "join_lines (l # m # ls) = l @ [newline] @ join_lines (m # ls)"

section \<open>The selector grammar checker (intent\_validator.py)\<close>

text \<open>The end anchor \<^verbatim>\<open>$\<close> matches at the end of the string and before a
  final newline.\<close>

definition at_dollar :: "string \<Rightarrow> bool" where
  "at_dollar t = (t = [] \<or> t = [newline])"

definition bad_edge_char :: "char \<Rightarrow> bool" where
  "bad_edge_char c = (c \<in> set ''{}()>'')"

text \<open>\<^verbatim>\<open>re.search(r'^\s*$', s)\<close>\<close>

definition re_whitespace_only :: "string \<Rightarrow> bool" where
  "re_whitespace_only s = list_all is_space s"

text \<open>\<^verbatim>\<open>re.search(r'^\[\]', s)\<close>\<close>

definition re_empty_attribute :: "string \<Rightarrow> bool" where
  "re_empty_attribute s = prefix ''[]'' s"

text \<open>\<^verbatim>\<open>re.search(r'^\(\)$', s)\<close>\<close>

definition re_empty_parens :: "string \<Rightarrow> bool" where
  "re_empty_parens s = (prefix ''()'' s \<and> at_dollar (drop 2 s))"

text \<open>\<^verbatim>\<open>re.search(r'^[{}()>]', s)\<close>\<close>

definition re_starts_invalid :: "string \<Rightarrow> bool" where
  "re_starts_invalid s = (case s of [] \<Rightarrow> False | c # _ \<Rightarrow> bad_edge_char c)"

text \<open>\<^verbatim>\<open>re.search(r'[{}()>]$', s)\<close>\<close>

definition re_ends_invalid :: "string \<Rightarrow> bool" where
  "re_ends_invalid s =
     (case rev s of
        [] \<Rightarrow> False
      | c # r \<Rightarrow> bad_edge_char c \<or>
                (c = newline \<and> (case r of [] \<Rightarrow> False | d # _ \<Rightarrow> bad_edge_char d)))"

text \<open>\<^verbatim>\<open>re.search(r'\s{2,}', s)\<close>\<close>

fun re_multiple_spaces :: "string \<Rightarrow> bool" where
  "re_multiple_spaces (c # d # cs) = ((is_space c \<and> is_space d) \<or> re_multiple_spaces (d # cs))"
| "re_multiple_spaces _ = False"

text \<open>The pattern for HTML brackets: a character class holding the two angle brackets,
  searched anywhere in the string.\<close>

definition re_html_brackets :: "string \<Rightarrow> bool" where
  "re_html_brackets s = list_ex (\<lambda>c. c = CHR ''<'' \<or> c = CHR ''>'') s"

text \<open>\<^verbatim>\<open>re.search(r'[\n\r]', s)\<close>\<close>

definition re_newlines :: "string \<Rightarrow> bool" where
  "re_newlines s = list_ex (\<lambda>c. c = newline \<or> c = carriage_return) s"

text \<open>\<^verbatim>\<open>re.search(r'^>\s*\w', s)\<close>\<close>

definition re_child_orphan :: "string \<Rightarrow> bool" where
  "re_child_orphan s =
     (case s of
        [] \<Rightarrow> False
      | c # t \<Rightarrow> c = CHR ''>'' \<and>
                (case dropWhile is_space t of [] \<Rightarrow> False | d # _ \<Rightarrow> is_word_char d))"

text \<open>\<^verbatim>\<open>re.match(r'^[a-zA-Z]+\s*>\s*$', s)\<close> (the emitter uses the same pattern
  with \<^verbatim>\<open>re.search\<close>, which is the same test for an anchored pattern).\<close>

definition re_element_then_gt :: "string \<Rightarrow> bool" where
  "re_element_then_gt s =
     (takeWhile is_ascii_letter s \<noteq> [] \<and>
      (case dropWhile is_space (dropWhile is_ascii_letter s) of
         [] \<Rightarrow> False
       | c # t \<Rightarrow> c = CHR ''>'' \<and> list_all is_space t))"

text \<open>\<^verbatim>\<open>re.match(r'^#[a-zA-Z0-9_-]+$', s)\<close>\<close>

definition re_id_selector :: "string \<Rightarrow> bool" where
  "re_id_selector s =
     (case s of
        [] \<Rightarrow> False
      | c # t \<Rightarrow> c = CHR ''#'' \<and> takeWhile is_name_char t \<noteq> [] \<and>
                at_dollar (dropWhile is_name_char t))"

text \<open>\<^verbatim>\<open>re.match(r'^\.[a-zA-Z0-9_-]+$', s)\<close>\<close>

definition re_class_selector :: "string \<Rightarrow> bool" where
  "re_class_selector s =
     (case s of
        [] \<Rightarrow> False
      | c # t \<Rightarrow> c = CHR ''.'' \<and> takeWhile is_name_char t \<noteq> [] \<and>
                at_dollar (dropWhile is_name_char t))"

text \<open>\<^verbatim>\<open>re.match(r'^\[[a-zA-Z0-9_-]+.*\]$', s)\<close>: an opening bracket, a name
  character, any characters but newlines, a closing bracket at \<^verbatim>\<open>$\<close>.\<close>

definition no_newline :: "string \<Rightarrow> bool" where
  "no_newline s = list_all (\<lambda>c. c \<noteq> newline) s"

definition re_attribute_selector :: "string \<Rightarrow> bool" where
  "re_attribute_selector s =
     (case s of
        c # d # u \<Rightarrow>
          c = CHR ''['' \<and> is_name_char d \<and>
          (case rev u of
             [] \<Rightarrow> False
           | e # r \<Rightarrow>
               (e = CHR '']'' \<and> no_newline r) \<or>
               (e = newline \<and> (case r of [] \<Rightarrow> False | f # r' \<Rightarrow> f = CHR '']'' \<and> no_newline r')))
      | _ \<Rightarrow> False)"

text \<open>\<^verbatim>\<open>re.match(r'^[a-zA-Z]+$', s)\<close>\<close>

definition re_pure_element :: "string \<Rightarrow> bool" where
  "re_pure_element s =
     (takeWhile is_ascii_letter s \<noteq> [] \<and> at_dollar (dropWhile is_ascii_letter s))"

text \<open>\<^verbatim>\<open>re.match(r'^[a-zA-Z][a-zA-Z0-9-]*$', s)\<close>\<close>

definition re_custom_element :: "string \<Rightarrow> bool" where
  "re_custom_element s =
     (case s of
        [] \<Rightarrow> False
      | c # t \<Rightarrow> is_ascii_letter c \<and> at_dollar (dropWhile is_element_char t))"

definition invalid_patterns :: "(string \<Rightarrow> bool) list" where
  "invalid_patterns =
     [re_whitespace_only, re_empty_attribute, re_empty_parens, re_starts_invalid,
      re_ends_invalid, re_multiple_spaces, re_html_brackets, re_newlines, re_child_orphan]"

text \<open>The four \<^verbatim>\<open>valid_start_patterns\<close>: \<^verbatim>\<open>^#\<close>, \<^verbatim>\<open>^\.\<close>, \<^verbatim>\<open>^\[\<close>,
  \<^verbatim>\<open>^[a-zA-Z]\<close>.\<close>

definition valid_start :: "string \<Rightarrow> bool" where
  "valid_start s =
     (case s of
        [] \<Rightarrow> False
      | c # _ \<Rightarrow> c = CHR ''#'' \<or> c = CHR ''.'' \<or> c = CHR ''['' \<or> is_ascii_letter c)"

definition valid_elements :: "string list" where
  "valid_elements =
     [''div'', ''span'', ''p'', ''a'', ''button'', ''input'', ''form'', ''label'',
      ''h1'', ''h2'', ''h3'', ''h4'', ''h5'', ''h6'', ''ul'', ''ol'', ''li'',
      ''table'', ''tr'', ''td'', ''th'', ''img'', ''video'', ''audio'',
      ''section'', ''article'', ''nav'', ''header'', ''footer'', ''main'']"

text \<open>\<^verbatim>\<open>IntentValidator._is_valid_css_selector\<close>.  The local \<open>selector\<close> is the
  stripped argument; the argument itself is not changed.\<close>

definition is_valid_css_selector :: "string \<Rightarrow> bool" where
  "is_valid_css_selector arg =
     (if arg = [] then False
      else
        let selector = py_strip arg in
        if length selector = 0 then False
        else if list_ex (\<lambda>pattern. pattern selector) invalid_patterns then False
        else if py_count selector CHR ''['' \<noteq> py_count selector CHR '']'' then False
        else if py_count selector CHR ''('' \<noteq> py_count selector CHR '')'' then False
        else if re_element_then_gt selector then False
        else if \<not> valid_start selector then False
        else if prefix ''#'' selector then re_id_selector selector
        else if prefix ''.'' selector then re_class_selector selector
        else if prefix ''['' selector then re_attribute_selector selector
        else if re_pure_element selector then
          (if ascii_lower selector \<notin> set valid_elements
           then re_custom_element selector else True)
        else True)"


section \<open>Intent validation and deduplication (intent\_validator.py)\<close>

definition dquote :: char where
  "dquote = CHR 0x22"

definition squote :: char where
  "squote = CHR 0x27"

text \<open>An \<^verbatim>\<open>original_step\<close> dictionary: the keys the validator and the emitter read.
  A string key that is absent is the empty string (every read is a \<^verbatim>\<open>.get\<close> with a
  falsy default), an absent \<^verbatim>\<open>is_context_event\<close> is \<open>False\<close>.\<close>

record step =
  st_is_context_event :: bool
  st_normalized_action :: string
  st_eventElement :: string
  st_clean_url :: string
  st_url :: string

text \<open>An intent dictionary as the validator receives it.  It reads \<^verbatim>\<open>intent\<close>,
  \<^verbatim>\<open>event_type\<close>, \<^verbatim>\<open>selector\<close> and \<^verbatim>\<open>original_step\<close>; it takes the step index from
  the position in the list.  In a list of inputs, \<open>None\<close> stands for an entry that is
  \<^verbatim>\<open>None\<close> or an empty dictionary.\<close>

record intent_obj =
  i_event_type :: string
  i_intent :: string
  i_selector :: string
  i_original_step :: step

text \<open>A cleaned intent.  Its selector is \<open>None\<close> where the Python value is \<^verbatim>\<open>None\<close>
  (an action that needs no selector and has no markup to take one from).\<close>

record cleaned_intent =
  c_step_index :: nat
  c_event_type :: string
  c_intent :: string
  c_selector :: "string option"
  c_original_step :: step
  c_is_context_event :: bool

text \<open>The two accumulators of an \<^verbatim>\<open>IntentValidator\<close> instance.\<close>

record validator =
  validation_errors :: "string list"
  validation_warnings :: "string list"

text \<open>The value between \<open>marker\<close> (\<^verbatim>\<open>id="\<close>, \<^verbatim>\<open>name="\<close>, ...) and the next double
  quote: \<^verbatim>\<open>start = html.find(marker) + len(marker); end = html.find('"', start);
  html[start:end]\<close>.  The source evaluates it only where \<^verbatim>\<open>marker in html\<close>.\<close>

definition attr_value :: "string \<Rightarrow> string \<Rightarrow> string" where
  "attr_value element_html marker =
     (let start = nat (py_find element_html marker 0) + length marker;
          stop = py_find element_html [dquote] start
      in py_slice element_html start stop)"

text \<open>\<^verbatim>\<open>marker in html\<close> and the extracted value is non-empty after stripping.\<close>

definition has_attr :: "string \<Rightarrow> string \<Rightarrow> bool" where
  "has_attr element_html marker =
     (py_contains marker element_html \<and> attr_value element_html marker \<noteq> [] \<and>
      py_strip (attr_value element_html marker) \<noteq> [])"

text \<open>\<^verbatim>\<open>re.match(r"<([a-zA-Z0-9]+)", html)\<close>: the group, when the pattern matches.\<close>

definition tag_match :: "string \<Rightarrow> string option" where
  "tag_match element_html =
     (case element_html of
        [] \<Rightarrow> None
      | c # t \<Rightarrow> if c = CHR ''<'' \<and> takeWhile is_alnum_char t \<noteq> []
                then Some (takeWhile is_alnum_char t) else None)"

text \<open>The last step of \<^verbatim>\<open>_extract_stable_selector\<close>: the element type.\<close>

definition tag_fallback :: "string \<Rightarrow> string option" where
  "tag_fallback element_html =
     (case tag_match element_html of
        Some tag \<Rightarrow> if tag \<noteq> [] \<and> py_strip tag \<noteq> [] then Some tag else None
      | None \<Rightarrow> None)"

text \<open>\<^verbatim>\<open>IntentValidator._extract_stable_selector\<close>.  In the class step,
  \<^verbatim>\<open>classes.split()[0]\<close> on an empty list would raise \<^verbatim>\<open>IndexError\<close>, which the
  source catches and passes on to the next step.\<close>

definition extract_stable_selector :: "step \<Rightarrow> string option" where
  "extract_stable_selector step =
     (let element_html = st_eventElement step in
      if element_html = [] then None
      else if has_attr element_html (''id='' @ [dquote])
        then Some (''#'' @ attr_value element_html (''id='' @ [dquote]))
      else if has_attr element_html (''data-testid='' @ [dquote])
        then Some (''[data-testid='' @ [dquote]
                   @ attr_value element_html (''data-testid='' @ [dquote]) @ [dquote] @ '']'')
      else if has_attr element_html (''name='' @ [dquote])
        then Some (''[name='' @ [dquote]
                   @ attr_value element_html (''name='' @ [dquote]) @ [dquote] @ '']'')
      else if has_attr element_html (''aria-label='' @ [dquote])
        then Some (''[aria-label='' @ [dquote]
                   @ attr_value element_html (''aria-label='' @ [dquote]) @ [dquote] @ '']'')
      else if has_attr element_html (''class='' @ [dquote])
        then (case py_split (attr_value element_html (''class='' @ [dquote])) of
                [] \<Rightarrow> tag_fallback element_html
              | first_class # _ \<Rightarrow>
                  if first_class \<noteq> [] then Some (''.'' @ first_class)
                  else tag_fallback element_html)
      else tag_fallback element_html)"

text \<open>\<^verbatim>\<open>IntentValidator._action_requires_selector\<close>\<close>

definition action_types_needing_selector :: "string list" where
  "action_types_needing_selector =
     [''STEPS_FEATURE_CLICK_EVENT'', ''STEPS_FEATURE_TYPE_EVENT'',
      ''STEPS_FEATURE_SCROLL_EVENT'', ''STEPS_FEATURE_HOVER_EVENT'',
      ''click'', ''type'', ''select'', ''submit'', ''hover'']"

definition actions_not_needing_selector :: "string list" where
  "actions_not_needing_selector =
     [''STEPS_FEATURE_TAB_VISIBLE_EVENT'', ''STEPS_FEATURE_NAVIGATE_EVENT'',
      ''STEPS_FEATURE_WAIT_EVENT'', ''PREPROCESSED'']"

definition action_requires_selector :: "string \<Rightarrow> bool" where
  "action_requires_selector event_type =
     (if event_type \<in> set action_types_needing_selector then True
      else if event_type \<in> set actions_not_needing_selector then False
      else True)"

text \<open>\<^verbatim>\<open>IntentValidator.validate_single_intent\<close>.  Both accumulators are reset on
  entry.  The result \<open>None\<close> is the pair \<^verbatim>\<open>(False, None)\<close>, \<open>Some c\<close> is
  \<^verbatim>\<open>(True, c)\<close>.\<close>

definition validate_single_intent ::
  "validator \<Rightarrow> intent_obj option \<Rightarrow> nat \<Rightarrow> validator \<times> cleaned_intent option" where
  "validate_single_intent self arg step_index =
     (let v = self\<lparr>validation_errors := [], validation_warnings := []\<rparr> in
      case arg of
        None \<Rightarrow>
          (v\<lparr>validation_errors := validation_errors v
               @ [''Step '' @ str_nat step_index @ '': Intent is None or empty'']\<rparr>, None)
      | Some obj \<Rightarrow>
          let intent = i_intent obj;
              event_type = i_event_type obj;
              original_step = i_original_step obj;
              is_context_event = st_is_context_event original_step;
              normalized_action = st_normalized_action original_step
          in
          if is_context_event \<or> normalized_action = ''wait'' then
            (v, Some \<lparr>c_step_index = step_index,
                      c_event_type = event_type,
                      c_intent = (if py_strip intent \<noteq> [] then py_strip intent
                                  else ''Wait for context event''),
                      c_selector = Some [],
                      c_original_step = original_step,
                      c_is_context_event = True\<rparr>)
          else if intent = [] \<or> py_strip intent = [] then
            (v\<lparr>validation_errors := validation_errors v
                 @ [''Step '' @ str_nat step_index @ '': Intent text is empty'']\<rparr>, None)
          else
            let selector = (if i_selector obj = [] then extract_stable_selector original_step
                            else Some (i_selector obj))
            in
            if action_requires_selector event_type
               \<and> (case selector of None \<Rightarrow> True | Some sel \<Rightarrow> sel = [] \<or> py_strip sel = [])
            then
              (v\<lparr>validation_warnings := validation_warnings v
                   @ [''Step '' @ str_nat step_index @ '': Empty selector for '' @ event_type
                      @ ''. Skipping step.'']\<rparr>, None)
            else if action_requires_selector event_type
               \<and> \<not> is_valid_css_selector (case selector of None \<Rightarrow> [] | Some sel \<Rightarrow> sel)
            then
              (v\<lparr>validation_errors := validation_errors v
                   @ [''Step '' @ str_nat step_index @ '': Malformed CSS selector ''
                      @ [squote] @ (case selector of None \<Rightarrow> [] | Some sel \<Rightarrow> sel)
                      @ [squote]]\<rparr>, None)
            else
              (v, Some \<lparr>c_step_index = step_index,
                        c_event_type = event_type,
                        c_intent = py_strip intent,
                        c_selector = selector,
                        c_original_step = original_step,
                        c_is_context_event = False\<rparr>))"

text \<open>The comparison of \<^verbatim>\<open>_deduplicate_consecutive_actions\<close>: the same event type,
  selector and intent text.\<close>

definition is_duplicate :: "cleaned_intent \<Rightarrow> cleaned_intent \<Rightarrow> bool" where
  "is_duplicate current previous =
     (c_event_type current = c_event_type previous
      \<and> c_selector current = c_selector previous
      \<and> c_intent current = c_intent previous)"

text \<open>The loop \<^verbatim>\<open>for i in range(1, len(intents))\<close>.  \<open>deduplicated\<close> starts as
  \<^verbatim>\<open>[intents[0]]\<close> and only grows, so \<^verbatim>\<open>deduplicated[-1]\<close> is its last element.\<close>

fun dedup_loop ::
  "validator \<Rightarrow> cleaned_intent list \<Rightarrow> cleaned_intent list \<Rightarrow> validator \<times> cleaned_intent list" where
  "dedup_loop self deduplicated [] = (self, deduplicated)"
| "dedup_loop self deduplicated (current # rest) =
     (let previous = last deduplicated in
      if \<not> is_duplicate current previous
      then dedup_loop self (deduplicated @ [current]) rest
      else dedup_loop
             (self\<lparr>validation_warnings := validation_warnings self
                @ [''Step '' @ str_nat (c_step_index current) @ '': Removed duplicate action ''
                   @ ''(same as step '' @ str_nat (c_step_index previous) @ '')'']\<rparr>)
             deduplicated rest)"

text \<open>\<^verbatim>\<open>IntentValidator._deduplicate_consecutive_actions\<close>\<close>

definition deduplicate_consecutive_actions ::
  "validator \<Rightarrow> cleaned_intent list \<Rightarrow> validator \<times> cleaned_intent list" where
  "deduplicate_consecutive_actions self intents =
     (case intents of
        [] \<Rightarrow> (self, [])
      | first # rest \<Rightarrow> dedup_loop self [first] rest)"

text \<open>The validation report.  The counts are Python integers.\<close>

record report =
  total_input_intents :: int
  total_valid_intents :: int
  total_after_dedup :: int
  removed_by_validation :: int
  removed_by_dedup :: int
  removed_steps_details :: "(nat \<times> string) list"
  report_validation_errors :: "string list"
  report_validation_warnings :: "string list"

text \<open>The loop \<^verbatim>\<open>for idx, intent_obj in enumerate(intents)\<close> of
  \<^verbatim>\<open>validate_and_clean_intents\<close>.\<close>

fun validate_loop ::
  "validator \<Rightarrow> nat \<Rightarrow> intent_obj option list \<Rightarrow> cleaned_intent list \<Rightarrow> (nat \<times> string) list
   \<Rightarrow> validator \<times> cleaned_intent list \<times> (nat \<times> string) list" where
  "validate_loop self idx [] cleaned_intents removed_steps =
     (self, cleaned_intents, removed_steps)"
| "validate_loop self idx (obj # rest) cleaned_intents removed_steps =
     (case validate_single_intent self obj idx of
        (self', Some cleaned) \<Rightarrow>
          validate_loop self' (Suc idx) rest (cleaned_intents @ [cleaned]) removed_steps
      | (self', None) \<Rightarrow>
          validate_loop self' (Suc idx) rest cleaned_intents
            (removed_steps
             @ [(idx, if validation_errors self' \<noteq> [] then last (validation_errors self')
                      else ''Unknown error'')]))"

text \<open>\<^verbatim>\<open>IntentValidator.validate_and_clean_intents\<close>\<close>

definition validate_and_clean_intents ::
  "validator \<Rightarrow> intent_obj option list \<Rightarrow> validator \<times> cleaned_intent list \<times> report" where
  "validate_and_clean_intents self intents =
     (case validate_loop self 0 intents [] [] of
        (self1, cleaned_intents, removed_steps) \<Rightarrow>
          (case deduplicate_consecutive_actions self1 cleaned_intents of
             (self2, deduplicated_intents) \<Rightarrow>
               (self2, deduplicated_intents,
                \<lparr>total_input_intents = int (length intents),
                 total_valid_intents = int (length cleaned_intents),
                 total_after_dedup = int (length deduplicated_intents),
                 removed_by_validation = int (length removed_steps),
                 removed_by_dedup =
                   int (length cleaned_intents) - int (length deduplicated_intents),
                 removed_steps_details = removed_steps,
                 report_validation_errors = validation_errors self2,
                 report_validation_warnings = validation_warnings self2\<rparr>)))"

text \<open>The triple that deduplication compares.\<close>

definition triple :: "cleaned_intent \<Rightarrow> string \<times> string option \<times> string" where
  "triple c = (c_event_type c, c_selector c, c_intent c)"

text \<open>Deduplication as the specification words it: walking the accepted intents in
  order, an intent is removed when its triple equals that of the last retained
  intent \<open>previous\<close>, and is retained (becoming the new \<open>previous\<close>) otherwise.\<close>

fun drop_repeats :: "cleaned_intent \<Rightarrow> cleaned_intent list \<Rightarrow> cleaned_intent list" where
  "drop_repeats previous [] = []"
| "drop_repeats previous (x # xs) =
     (if triple x = triple previous then drop_repeats previous xs else x # drop_repeats x xs)"

section \<open>The selector policy of the intent generator (intent\_generator.py)\<close>

text \<open>The \<^verbatim>\<open>element_hints\<close> dictionary of a preprocessed step; an absent key is the
  empty string.\<close>

record hints =
  h_id :: string
  h_class :: string
  h_name :: string
  h_test_id :: string
  h_aria_label :: string
  h_tag :: string

text \<open>\<^verbatim>\<open>IntentGenerator._build_selector_from_hints\<close>\<close>

definition build_selector_from_hints :: "hints \<Rightarrow> string" where
  "build_selector_from_hints hs =
     (if h_id hs \<noteq> [] then ''#'' @ h_id hs
      else if h_name hs \<noteq> [] then ''[name='' @ [squote] @ h_name hs @ [squote] @ '']''
      else
        (case (if h_class hs \<noteq> [] then py_split (h_class hs) else []) of
           first_class # _ \<Rightarrow> ''.'' @ first_class
         | [] \<Rightarrow>
             if h_test_id hs \<noteq> []
             then ''[data-testid='' @ [squote] @ h_test_id hs @ [squote] @ '']''
             else if h_aria_label hs \<noteq> []
             then ''[aria-label='' @ [squote] @ h_aria_label hs @ [squote] @ '']''
             else []))"

section \<open>URL cleaning (steps\_preprocessor.py)\<close>

text \<open>The result of \<^verbatim>\<open>urllib.parse.urlparse\<close>.\<close>

record parse_result =
  u_scheme :: string
  u_netloc :: string
  u_path :: string
  u_params :: string
  u_query :: string
  u_fragment :: string

text \<open>The functions of the standard library module \<^verbatim>\<open>urllib.parse\<close> that the
  repository calls.  They are not code of the repository, so the functions that call
  them take them as a parameter; \<open>None\<close> is a raised exception.  \<^verbatim>\<open>parse_qs\<close>
  returns a dictionary, modelled as the list of its items in insertion order.\<close>

record urllib =
  lib_urlparse :: "string \<Rightarrow> parse_result option"
  lib_parse_qs :: "string \<Rightarrow> (string \<times> string list) list option"
  lib_urlencode :: "(string \<times> string list) list \<Rightarrow> string option"
  lib_urlunparse :: "parse_result \<Rightarrow> string option"

definition tracking_patterns :: "string list" where
  "tracking_patterns =
     [''utm_'', ''gad'', ''ref='', ''adgrp'', ''hvp'', ''hvt'', ''hvr'',
      ''tag='', ''crid='', ''sprefix='', ''rps='', ''lpg='']"

text \<open>\<^verbatim>\<open>any(key.startswith(t) for t in tracking_patterns)\<close>\<close>

definition is_tracking_key :: "string \<Rightarrow> bool" where
  "is_tracking_key key = list_ex (\<lambda>t. prefix t key) tracking_patterns"

text \<open>The loop that fills \<^verbatim>\<open>filtered_params\<close>.\<close>

definition filtered_params :: "(string \<times> string list) list \<Rightarrow> (string \<times> string list) list" where
  "filtered_params params = filter (\<lambda>item. \<not> is_tracking_key (fst item)) params"

text \<open>\<^verbatim>\<open>StepsPreprocessor._strip_tracking_params\<close>; any exception returns the URL
  unchanged.\<close>

definition strip_tracking_params :: "urllib \<Rightarrow> string \<Rightarrow> string" where
  "strip_tracking_params lib url =
     (if url = [] then []
      else
        case lib_urlparse lib url of
          None \<Rightarrow> url
        | Some parsed \<Rightarrow>
            (case lib_parse_qs lib (u_query parsed) of
               None \<Rightarrow> url
             | Some params \<Rightarrow>
                 (case lib_urlencode lib (filtered_params params) of
                    None \<Rightarrow> url
                  | Some new_query \<Rightarrow>
                      (case lib_urlunparse lib (parsed\<lparr>u_query := new_query\<rparr>) of
                         None \<Rightarrow> url
                       | Some clean_url \<Rightarrow> clean_url))))"

subsection \<open>A model of the library's \<^verbatim>\<open>urlparse\<close>\<close>

text \<open>
  \<open>py_urlparse\<close> follows CPython 3.11's \<^verbatim>\<open>urllib.parse.urlparse\<close> (\<^verbatim>\<open>urlsplit\<close>,
  \<^verbatim>\<open>_splitnetloc\<close>, \<^verbatim>\<open>_splitparams\<close>) on strings of code points below 256.  It is used
  to evaluate the emitter on concrete URLs only; the general statements hold for every
  library.  One deviation: where the authority contains a square bracket the library
  validates an IPv6 literal (and raises on an invalid one); that validation is not
  reproduced and the model answers \<open>None\<close> for every bracketed authority.
\<close>

definition is_scheme_char :: "char \<Rightarrow> bool" where
  "is_scheme_char c = (is_ascii_letter c \<or> is_ascii_digit c \<or> c \<in> set ''+-.'')"

definition uses_params :: "string list" where
  "uses_params =
     [[], ''ftp'', ''hdl'', ''prospero'', ''http'', ''imap'', ''https'', ''shttp'',
      ''rtsp'', ''rtsps'', ''rtspu'', ''sip'', ''sips'', ''mms'', ''sftp'', ''tel'']"

text \<open>\<^verbatim>\<open>a, b = s.split(c, 1)\<close> where \<open>c\<close> occurs in \<open>s\<close>; \<open>(s, '')\<close> where it does not.\<close>

definition cut_at :: "char \<Rightarrow> string \<Rightarrow> string \<times> string" where
  "cut_at c s = (takeWhile (\<lambda>d. d \<noteq> c) s, drop 1 (dropWhile (\<lambda>d. d \<noteq> c) s))"

definition split_scheme :: "string \<Rightarrow> string \<times> string" where
  "split_scheme url =
     (case find_index_of '':'' url of
        None \<Rightarrow> ([], url)
      | Some i \<Rightarrow>
          if 0 < i \<and> list_all is_ascii_letter (take 1 url) \<and> list_all is_scheme_char (take i url)
          then (ascii_lower (take i url), drop (Suc i) url)
          else ([], url))"

definition split_netloc :: "string \<Rightarrow> string \<times> string" where
  "split_netloc url =
     (takeWhile (\<lambda>c. c \<notin> set ''/?#'') (drop 2 url),
      dropWhile (\<lambda>c. c \<notin> set ''/?#'') (drop 2 url))"

definition split_params :: "string \<Rightarrow> string \<times> string" where
  "split_params url =
     (let seg = rev (takeWhile (\<lambda>c. c \<noteq> CHR ''/'') (rev url));
          front = take (length url - length seg) url
      in if CHR '';'' \<in> set seg
         then (front @ takeWhile (\<lambda>c. c \<noteq> CHR '';'') seg,
               drop 1 (dropWhile (\<lambda>c. c \<noteq> CHR '';'') seg))
         else (url, []))"

definition py_urlparse :: "string \<Rightarrow> parse_result option" where
  "py_urlparse arg =
     (let url0 = filter (\<lambda>c. c \<noteq> tab_char \<and> c \<noteq> carriage_return \<and> c \<noteq> newline)
                   (dropWhile (\<lambda>c. code_point c \<le> 32) arg);
          scheme = fst (split_scheme url0);
          url1 = snd (split_scheme url0);
          netloc = (if take 2 url1 = ''//'' then fst (split_netloc url1) else []);
          url2 = (if take 2 url1 = ''//'' then snd (split_netloc url1) else url1);
          fragment = snd (cut_at CHR ''#'' url2);
          url3 = fst (cut_at CHR ''#'' url2);
          query = snd (cut_at CHR ''?'' url3);
          url4 = fst (cut_at CHR ''?'' url3);
          with_params = (scheme \<in> set uses_params \<and> CHR '';'' \<in> set url4)
      in if CHR ''['' \<in> set netloc \<or> CHR '']'' \<in> set netloc then None
         else Some \<lparr>u_scheme = scheme,
                    u_netloc = netloc,
                    u_path = (if with_params then fst (split_params url4) else url4),
                    u_params = (if with_params then snd (split_params url4) else []),
                    u_query = query,
                    u_fragment = fragment\<rparr>)"

text \<open>The library with the modelled \<^verbatim>\<open>urlparse\<close>; the emitter calls no other function
  of it, so the other three are left raising.\<close>

definition emitter_lib :: urllib where
  "emitter_lib =
     \<lparr>lib_urlparse = py_urlparse,
      lib_parse_qs = (\<lambda>q. None),
      lib_urlencode = (\<lambda>ps. None),
      lib_urlunparse = (\<lambda>r. None)\<rparr>"

section \<open>The code emitter (javascript\_code\_generator.py)\<close>

datatype PlaywrightActionType =
  NAVIGATE | CLICK | FILL_TEXT | SELECT | WAIT | SCROLL | HOVER | PRESS | KEYBOARD | SCREENSHOT

text \<open>\<^verbatim>\<open>action_type.value\<close>\<close>

fun action_value :: "PlaywrightActionType \<Rightarrow> string" where
  "action_value NAVIGATE = ''navigate''"
| "action_value CLICK = ''click''"
| "action_value FILL_TEXT = ''fill''"
| "action_value SELECT = ''select''"
| "action_value WAIT = ''wait''"
| "action_value SCROLL = ''scroll''"
| "action_value HOVER = ''hover''"
| "action_value PRESS = ''press''"
| "action_value KEYBOARD = ''keyboard''"
| "action_value SCREENSHOT = ''screenshot''"

text \<open>A \<^verbatim>\<open>PlaywrightAST\<close> node.  \<open>None\<close> is Python's \<^verbatim>\<open>None\<close>.  The list of children
  is always empty and is left out.  A node of the list is an object with an action
  type (the constructor requires one), so the first two tests of
  \<^verbatim>\<open>_is_node_safe_for_codegen\<close> (\<^verbatim>\<open>not node\<close>, \<^verbatim>\<open>not node.action_type\<close>) never hold.\<close>

record PlaywrightAST =
  n_action_type :: PlaywrightActionType
  n_selector :: "string option"
  n_value :: "string option"
  n_url :: "string option"
  n_wait_time :: nat
  n_description :: string
  n_element_html :: "string option"

text \<open>The attributes of a \<^verbatim>\<open>JavaScriptCodeGenerator\<close> instance; the two dictionaries
  are maps.\<close>

record codegen =
  generated_code :: string
  code_warnings :: "string list"
  code_errors :: "string list"
  selector_usage_count :: "string \<Rightarrow> nat option"
  selector_index_map :: "string \<Rightarrow> nat list option"

text \<open>Truth of an optional string: \<^verbatim>\<open>None\<close> and \<^verbatim>\<open>""\<close> are false.\<close>

definition truthy :: "string option \<Rightarrow> bool" where
  "truthy x = (case x of None \<Rightarrow> False | Some s \<Rightarrow> s \<noteq> [])"

text \<open>\<^verbatim>\<open>x or y\<close> on strings, for an optional \<open>x\<close>.\<close>

definition py_or :: "string option \<Rightarrow> string \<Rightarrow> string" where
  "py_or x y = (case x of None \<Rightarrow> y | Some s \<Rightarrow> if s = [] then y else s)"

definition backslash :: char where
  "backslash = CHR 0x5C"

text \<open>\<^verbatim>\<open>JavaScriptCodeGenerator._escape_string\<close>\<close>

definition escape_string :: "string option \<Rightarrow> string" where
  "escape_string arg =
     (case arg of
        None \<Rightarrow> []
      | Some s \<Rightarrow>
          py_replace_char tab_char [backslash, CHR ''t'']
            (py_replace_char carriage_return [backslash, CHR ''r'']
              (py_replace_char newline [backslash, CHR ''n'']
                (py_replace_char dquote [backslash, dquote] s))))"

text \<open>\<^verbatim>\<open>JavaScriptCodeGenerator._is_valid_selector\<close>: none of the four malformed
  patterns is found.\<close>

definition is_valid_selector :: "string option \<Rightarrow> bool" where
  "is_valid_selector arg =
     (case arg of
        None \<Rightarrow> False
      | Some selector \<Rightarrow>
          if selector = [] then False
          else \<not> list_ex (\<lambda>pattern. pattern selector)
                   [re_starts_invalid, re_ends_invalid, re_html_brackets, re_element_then_gt])"

definition needs_selector :: "PlaywrightActionType \<Rightarrow> bool" where
  "needs_selector a = (a \<in> set [CLICK, FILL_TEXT, SELECT, HOVER])"

text \<open>\<^verbatim>\<open>JavaScriptCodeGenerator._is_node_safe_for_codegen\<close>\<close>

definition is_node_safe_for_codegen :: "codegen \<Rightarrow> PlaywrightAST \<Rightarrow> nat \<Rightarrow> codegen \<times> bool" where
  "is_node_safe_for_codegen self node step_idx =
     (if n_action_type node = WAIT then (self, True)
      else if needs_selector (n_action_type node)
              \<and> (\<not> truthy (n_selector node) \<or> py_strip (the (n_selector node)) = [])
      then (self\<lparr>code_errors := code_errors self
                @ [''Step '' @ str_nat step_idx @ '': Missing selector for ''
                   @ action_value (n_action_type node)]\<rparr>, False)
      else if needs_selector (n_action_type node) \<and> \<not> is_valid_selector (n_selector node)
      then (self\<lparr>code_errors := code_errors self
                @ [''Step '' @ str_nat step_idx @ '': Malformed selector '' @ [squote]
                   @ the (n_selector node) @ [squote] @ '' rejected'']\<rparr>, False)
      else if n_action_type node = NAVIGATE
              \<and> (\<not> truthy (n_url node) \<or> py_strip (the (n_url node)) = [])
      then (self\<lparr>code_errors := code_errors self
                @ [''Step '' @ str_nat step_idx @ '': Missing URL for navigate action'']\<rparr>, False)
      else (self, True))"

text \<open>The loop of \<^verbatim>\<open>_validate_all_nodes_before_codegen\<close>, and the function.\<close>

fun validate_nodes_loop ::
  "codegen \<Rightarrow> nat \<Rightarrow> PlaywrightAST list \<Rightarrow> PlaywrightAST list \<Rightarrow> codegen \<times> PlaywrightAST list" where
  "validate_nodes_loop self idx [] safe_nodes = (self, safe_nodes)"
| "validate_nodes_loop self idx (node # rest) safe_nodes =
     (case is_node_safe_for_codegen self node idx of
        (self', True) \<Rightarrow> validate_nodes_loop self' (Suc idx) rest (safe_nodes @ [node])
      | (self', False) \<Rightarrow>
          validate_nodes_loop
            (self'\<lparr>code_warnings := code_warnings self'
               @ [''Step '' @ str_nat idx
                  @ '': Node failed safety check, skipped from code generation'']\<rparr>)
            (Suc idx) rest safe_nodes)"

definition validate_all_nodes_before_codegen ::
  "codegen \<Rightarrow> PlaywrightAST list \<Rightarrow> codegen \<times> PlaywrightAST list" where
  "validate_all_nodes_before_codegen self ast_nodes = validate_nodes_loop self 0 ast_nodes []"

text \<open>\<^verbatim>\<open>JavaScriptCodeGenerator._analyze_selector_usage\<close>: the loop over the nodes,
  on the two dictionaries, and the function, which starts from empty dictionaries.\<close>

fun analyze_loop ::
  "(string \<Rightarrow> nat option) \<Rightarrow> (string \<Rightarrow> nat list option) \<Rightarrow> PlaywrightAST list
   \<Rightarrow> (string \<Rightarrow> nat option) \<times> (string \<Rightarrow> nat list option)" where
  "analyze_loop usage index_map [] = (usage, index_map)"
| "analyze_loop usage index_map (node # rest) =
     (if truthy (n_selector node) \<and> needs_selector (n_action_type node) then
        let selector = the (n_selector node);
            usage1 = (if usage selector = None then usage(selector \<mapsto> 0) else usage);
            index_map1 = (if usage selector = None then index_map(selector \<mapsto> [])
                          else index_map);
            n = (case usage1 selector of None \<Rightarrow> 0 | Some k \<Rightarrow> k);
            l = (case index_map1 selector of None \<Rightarrow> [] | Some ks \<Rightarrow> ks)
        in analyze_loop (usage1(selector \<mapsto> Suc n)) (index_map1(selector \<mapsto> l @ [n])) rest
      else analyze_loop usage index_map rest)"

definition analyze_selector_usage :: "codegen \<Rightarrow> PlaywrightAST list \<Rightarrow> codegen" where
  "analyze_selector_usage self ast_nodes =
     (case analyze_loop Map.empty Map.empty ast_nodes of
        (usage, index_map) \<Rightarrow>
          self\<lparr>selector_usage_count := usage, selector_index_map := index_map\<rparr>)"

text \<open>\<^verbatim>\<open>JavaScriptCodeGenerator._get_locator_with_occurrence\<close>\<close>

definition get_locator_with_occurrence :: "codegen \<Rightarrow> string option \<Rightarrow> nat \<Rightarrow> string" where
  \<open>get_locator_with_occurrence self arg occurrence =
     (if \<not> truthy arg then ''page.locator('' @ [squote] @ ''body'' @ [squote] @ '')''
      else
        let selector = the arg;
            escaped_selector =
              py_replace_char dquote [backslash, dquote]
                (py_replace_char squote [backslash, squote] selector);
            total_count = (case selector_usage_count self selector of None \<Rightarrow> 1 | Some k \<Rightarrow> k)
        in if total_count > 1
           then ''page.locator('' @ [squote] @ escaped_selector @ [squote] @ '').nth(''
                @ str_nat occurrence @ '')''
           else ''page.locator('' @ [squote] @ escaped_selector @ [squote] @ '').first()'')\<close>

text \<open>\<^verbatim>\<open>JavaScriptCodeGenerator._extract_base_url_from_intents\<close>; \<open>[]\<close> also stands for
  an argument that is \<^verbatim>\<open>None\<close>.\<close>

definition base_of :: "parse_result \<Rightarrow> string" where
  "base_of parsed = u_scheme parsed @ ''://'' @ u_netloc parsed"

definition extract_base_url_from_intents :: "urllib \<Rightarrow> cleaned_intent list \<Rightarrow> string option" where
  "extract_base_url_from_intents lib intents =
     (case intents of
        [] \<Rightarrow> None
      | first_intent # _ \<Rightarrow>
          let original_step = c_original_step first_intent;
              url = py_or (Some (st_clean_url original_step)) (st_url original_step)
          in if url \<noteq> [] then
               (case lib_urlparse lib url of
                  None \<Rightarrow> None
                | Some parsed \<Rightarrow> Some (base_of parsed))
             else None)"

text \<open>\<^verbatim>\<open>JavaScriptCodeGenerator._extract_base_url_from_ast\<close>: the first node with a
  URL decides; an exception of the parser ends the search.\<close>

fun extract_base_url_from_ast :: "urllib \<Rightarrow> PlaywrightAST list \<Rightarrow> string option" where
  "extract_base_url_from_ast lib [] = None"
| "extract_base_url_from_ast lib (node # rest) =
     (if truthy (n_url node) then
        (case lib_urlparse lib (the (n_url node)) of
           None \<Rightarrow> None
         | Some parsed \<Rightarrow> Some (base_of parsed))
      else extract_base_url_from_ast lib rest)"

definition indent :: string where
  "indent = ''        ''"

definition placeholder_url :: string where
  "placeholder_url = ''https://www.example.com''"

text \<open>The search of \<^verbatim>\<open>_generate_initial_navigation_block\<close> for the first navigation
  node: its URL, \<open>None\<close> when there is no such node.\<close>

fun first_navigate_url :: "PlaywrightAST list \<Rightarrow> string option" where
  "first_navigate_url [] = None"
| "first_navigate_url (node # rest) =
     (if n_action_type node = NAVIGATE then n_url node else first_navigate_url rest)"

text \<open>The line of the initial block that loads the page.\<close>

definition initial_goto_line :: "string \<Rightarrow> string" where
  \<open>initial_goto_line escaped_url =
     indent @ ''    await page.goto("'' @ escaped_url
       @ ''", { waitUntil: "load", timeout: 30000 });''\<close>

text \<open>\<^verbatim>\<open>JavaScriptCodeGenerator._generate_initial_navigation_block\<close>; the argument
  \<open>base_url\<close> is \<open>[]\<close> for \<^verbatim>\<open>None\<close>.\<close>

definition generate_initial_navigation_block :: "PlaywrightAST list \<Rightarrow> string \<Rightarrow> string" where
  \<open>generate_initial_navigation_block ast_nodes base_url =
     (let initial_url =
            (if base_url \<noteq> [] then base_url
             else py_or (first_navigate_url ast_nodes) placeholder_url);
          escaped_url = escape_string (Some initial_url)
      in join_lines
           [indent @ ''// Initial Navigation: Load the base page'',
            indent @ ''console.log("Initial: Navigating to '' @ escaped_url @ ''...");'',
            indent @ ''try {'',
            initial_goto_line escaped_url,
            indent @ ''    await page.waitForTimeout(1000);'',
            indent @ ''    console.log("  [OK] Page loaded successfully");'',
            indent @ ''} catch (error) {'',
            indent @ ''    console.warn("  [WARN] Page load warning: " + error.message + " (continuing anyway)");'',
            indent @ ''}''])\<close>

text \<open>\<^verbatim>\<open>JavaScriptCodeGenerator._generate_action\<close>: one block of text per action
  type.  The ten action types are all the members of the enumeration, so the
  source's final \<^verbatim>\<open>else\<close> is never taken.\<close>

definition generate_action :: "codegen \<Rightarrow> PlaywrightAST \<Rightarrow> nat \<Rightarrow> nat \<Rightarrow> string" where
  \<open>generate_action self node step_index occurrence =
     (let i = str_nat step_index;
          locator_code = get_locator_with_occurrence self (n_selector node) occurrence
      in case n_action_type node of
        NAVIGATE \<Rightarrow>
          (let url = escape_string (n_url node) in
           join_lines
             [indent @ ''// Step '' @ i @ '': Navigate to '' @ url,
              indent @ ''console.log("Step '' @ i @ '': Navigating to '' @ url @ ''...");'',
              indent @ ''try {'',
              indent @ ''    await page.goto("'' @ url @ ''", { waitUntil: "networkidle" });'',
              indent @ ''    console.log("  [OK] Navigation complete");'',
              indent @ ''} catch (error) {'',
              indent @ ''    throw new Error("Navigation failed at step '' @ i @ '': " + error.message);'',
              indent @ ''}''])
      | CLICK \<Rightarrow>
          join_lines
            [indent @ ''// Step '' @ i @ '': Click on element'',
             indent @ ''console.log("Step '' @ i @ '': Clicking on element...");'',
             indent @ ''try {'',
             indent @ ''    const locator = '' @ locator_code @ '';'',
             indent @ ''    await locator.waitFor({ state: "visible", timeout: 5000 });'',
             indent @ ''    await locator.click();'',
             indent @ ''    await page.waitForTimeout(500);'',
             indent @ ''    console.log("  [OK] Click action complete");'',
             indent @ ''} catch (error) {'',
             indent @ ''    throw new Error("Click failed at step '' @ i @ '': " + error.message);'',
             indent @ ''}'']
      | FILL_TEXT \<Rightarrow>
          join_lines
            [indent @ ''// Step '' @ i @ '': Fill input field'',
             indent @ ''console.log("Step '' @ i @ '': Filling input field...");'',
             indent @ ''try {'',
             indent @ ''    const locator = '' @ locator_code @ '';'',
             indent @ ''    await locator.waitFor({ state: "visible", timeout: 5000 });'',
             indent @ ''    await locator.fill("'' @ escape_string (n_value node) @ ''");'',
             indent @ ''    console.log("  [OK] Fill action complete");'',
             indent @ ''} catch (error) {'',
             indent @ ''    throw new Error("Fill failed at step '' @ i @ '': " + error.message);'',
             indent @ ''}'']
      | SELECT \<Rightarrow>
          join_lines
            [indent @ ''// Step '' @ i @ '': Select option'',
             indent @ ''console.log("Step '' @ i @ '': Selecting option...");'',
             indent @ ''try {'',
             indent @ ''    const locator = '' @ locator_code @ '';'',
             indent @ ''    await locator.waitFor({ state: "visible", timeout: 5000 });'',
             indent @ ''    await locator.selectOption("'' @ escape_string (n_value node) @ ''");'',
             indent @ ''    console.log("  [OK] Select action complete");'',
             indent @ ''} catch (error) {'',
             indent @ ''    throw new Error("Select failed at step '' @ i @ '': " + error.message);'',
             indent @ ''}'']
      | WAIT \<Rightarrow>
          (let wait_time = str_nat (if n_wait_time node = 0 then 5000 else n_wait_time node) in
           join_lines
             [indent @ ''// Step '' @ i @ '': Wait for element'',
              indent @ ''console.log("Step '' @ i @ '': Waiting '' @ wait_time @ ''ms...");'',
              indent @ ''try {'',
              indent @ ''    await page.waitForTimeout('' @ wait_time @ '');'',
              indent @ ''    console.log("  [OK] Wait complete");'',
              indent @ ''} catch (error) {'',
              indent @ ''    throw new Error("Wait failed at step '' @ i @ '': " + error.message);'',
              indent @ ''}''])
      | SCROLL \<Rightarrow>
          join_lines
            [indent @ ''// Step '' @ i @ '': Scroll page'',
             indent @ ''console.log("Step '' @ i @ '': Scrolling down...");'',
             indent @ ''try {'',
             indent @ ''    await page.evaluate(() => window.scrollBy(0, window.innerHeight));'',
             indent @ ''    await page.waitForTimeout(500);'',
             indent @ ''    console.log("  [OK] Scroll complete");'',
             indent @ ''} catch (error) {'',
             indent @ ''    throw new Error("Scroll failed at step '' @ i @ '': " + error.message);'',
             indent @ ''}'']
      | HOVER \<Rightarrow>
          join_lines
            [indent @ ''// Step '' @ i @ '': Hover on element'',
             indent @ ''console.log("Step '' @ i @ '': Hovering on element...");'',
             indent @ ''try {'',
             indent @ ''    const locator = '' @ locator_code @ '';'',
             indent @ ''    await locator.waitFor({ state: "visible", timeout: 5000 });'',
             indent @ ''    await locator.hover();'',
             indent @ ''    console.log("  [OK] Hover complete");'',
             indent @ ''} catch (error) {'',
             indent @ ''    throw new Error("Hover failed at step '' @ i @ '': " + error.message);'',
             indent @ ''}'']
      | PRESS \<Rightarrow>
          (let key = py_or (n_value node) ''Enter'' in
           join_lines
             [indent @ ''// Step '' @ i @ '': Press key'',
              indent @ ''console.log("Step '' @ i @ '': Pressing '' @ key @ ''...");'',
              indent @ ''try {'',
              indent @ ''    await page.press("body", "'' @ key @ ''");'',
              indent @ ''    await page.waitForTimeout(500);'',
              indent @ ''    console.log("  [OK] Key press complete");'',
              indent @ ''} catch (error) {'',
              indent @ ''    throw new Error("Key press failed at step '' @ i @ '': " + error.message);'',
              indent @ ''}''])
      | KEYBOARD \<Rightarrow>
          (let keys = py_or (n_value node) [] in
           join_lines
             [indent @ ''// Step '' @ i @ '': Type text'',
              indent @ ''console.log("Step '' @ i @ '': Typing text...");'',
              indent @ ''try {'',
              indent @ ''    await page.keyboard.type("'' @ escape_string (Some keys) @ ''");'',
              indent @ ''    console.log("  [OK] Text input complete");'',
              indent @ ''} catch (error) {'',
              indent @ ''    throw new Error("Text input failed at step '' @ i @ '': " + error.message);'',
              indent @ ''}''])
      | SCREENSHOT \<Rightarrow>
          (let filename = ''screenshot_step_'' @ i @ ''.png'' in
           join_lines
             [indent @ ''// Step '' @ i @ '': Take screenshot'',
              indent @ ''console.log("Step '' @ i @ '': Taking screenshot...");'',
              indent @ ''try {'',
              indent @ ''    await page.screenshot({ path: "'' @ filename @ ''" });'',
              indent @ ''    console.log("  [OK] Screenshot saved to '' @ filename @ ''");'',
              indent @ ''} catch (error) {'',
              indent @ ''    throw new Error("Screenshot failed at step '' @ i @ '': " + error.message);'',
              indent @ ''}'']))\<close>

text \<open>The emission loop of \<^verbatim>\<open>generate_code_from_ast\<close>: the lines it appends.
  \<open>counter\<close> is \<^verbatim>\<open>selector_occurrence_counter\<close>, \<open>skip\<close> is
  \<^verbatim>\<open>skip_first_navigate\<close>, \<open>idx\<close> the position of the node.\<close>

fun emit_loop ::
  "codegen \<Rightarrow> (string \<Rightarrow> nat option) \<Rightarrow> bool \<Rightarrow> nat \<Rightarrow> PlaywrightAST list \<Rightarrow> string list" where
  "emit_loop self counter skip idx [] = []"
| "emit_loop self counter skip idx (node # rest) =
     (if skip \<and> n_action_type node = NAVIGATE then emit_loop self counter False (Suc idx) rest
      else
        let occurrence =
              (if truthy (n_selector node)
               then (case counter (the (n_selector node)) of None \<Rightarrow> 0 | Some k \<Rightarrow> k)
               else 0);
            counter1 =
              (if truthy (n_selector node)
               then counter(the (n_selector node) \<mapsto> Suc occurrence)
               else counter);
            generated_action = generate_action self node idx occurrence
        in (if generated_action \<noteq> [] then [generated_action] else [])
           @ emit_loop self counter1 skip (Suc idx) rest)"

definition header_lines :: "string list" where
  \<open>header_lines =
     [''// Auto-generated Playwright JavaScript test script'',
      ''// This script uses Playwright'' @ [squote] @ ''s high-level APIs with automatic waiting'',
      ''// All elements are located by ID or class name with proper handling for duplicates'',
      ''const { chromium } = require('' @ [squote] @ ''playwright'' @ [squote] @ '');'',
      [],
      ''async function runTests() {'',
      ''    const browser = await chromium.launch();'',
      ''    const page = await browser.newPage();'',
      ''    let lastError = null;'']\<close>

definition footer_lines :: "string list" where
  \<open>footer_lines =
     [[],
      ''        console.log('' @ [squote] @ ''[OK] All steps completed successfully'' @ [squote] @ '');'',
      ''    } catch (error) {'',
      ''        console.error('' @ [squote] @ ''[FAIL] Test execution failed:'' @ [squote] @ '', error.message);'',
      ''        lastError = error;'',
      ''    } finally {'',
      ''        await browser.close();'',
      ''    }'',
      ''}'',
      [],
      ''runTests().catch(error => {'',
      ''    console.error('' @ [squote] @ ''[FAIL] Unrecoverable error:'' @ [squote] @ '', error);'',
      ''    process.exit(1);'',
      ''});'']\<close>

text \<open>The value of the local \<^verbatim>\<open>base_url\<close> of \<^verbatim>\<open>generate_code_from_ast\<close>:
  \<^verbatim>\<open>first_url or _extract_base_url_from_intents(intents) or
  _extract_base_url_from_ast(safe_nodes) or "https://www.example.com"\<close>.\<close>

definition base_url_of ::
  "urllib \<Rightarrow> PlaywrightAST list \<Rightarrow> cleaned_intent list \<Rightarrow> string \<Rightarrow> string" where
  "base_url_of lib safe_nodes intents first_url =
     py_or (Some first_url)
       (py_or (extract_base_url_from_intents lib intents)
          (py_or (extract_base_url_from_ast lib safe_nodes) placeholder_url))"

text \<open>The list \<^verbatim>\<open>lines\<close> of \<^verbatim>\<open>generate_code_from_ast\<close> once the nodes have been
  validated and the selector usage analysed.\<close>

definition script_lines ::
  "urllib \<Rightarrow> codegen \<Rightarrow> PlaywrightAST list \<Rightarrow> cleaned_intent list \<Rightarrow> string \<Rightarrow> string list" where
  \<open>script_lines lib self safe_nodes intents first_url =
     (let base_url = base_url_of lib safe_nodes intents first_url;
          initial_block = generate_initial_navigation_block safe_nodes base_url
      in header_lines
         @ [[], ''    try {'', []]
         @ (if initial_block \<noteq> [] then [initial_block, []] else [])
         @ emit_loop self Map.empty True 0 safe_nodes
         @ footer_lines)\<close>

text \<open>\<^verbatim>\<open>JavaScriptCodeGenerator.generate_code_from_ast\<close>.  \<open>intents = []\<close> and
  \<open>first_url = []\<close> also stand for the default \<^verbatim>\<open>None\<close>.  The result is the new
  state of the generator and the returned text.\<close>

definition generate_code_from_ast ::
  "urllib \<Rightarrow> codegen \<Rightarrow> PlaywrightAST list \<Rightarrow> cleaned_intent list \<Rightarrow> string
   \<Rightarrow> codegen \<times> string" where
  "generate_code_from_ast lib self ast_nodes intents first_url =
     (if ast_nodes = [] then (self, [])
      else
        case validate_all_nodes_before_codegen self ast_nodes of
          (self1, safe_nodes) \<Rightarrow>
            if safe_nodes = []
            then (self1\<lparr>code_errors := code_errors self1
                          @ [''No valid AST nodes passed safety checks'']\<rparr>, [])
            else
              let self2 = analyze_selector_usage self1 safe_nodes;
                  code = join_lines (script_lines lib self2 safe_nodes intents first_url)
              in (self2\<lparr>generated_code := code\<rparr>, code))"

section \<open>The pipeline (main.py)\<close>

text \<open>The result of \<^verbatim>\<open>JavaScriptCodeTester.test_code\<close>, as far as the summary reads
  it.\<close>

record test_results =
  tr_total_errors :: nat
  tr_status :: string

text \<open>The stages of \<^verbatim>\<open>run_pipeline\<close> other than code generation, as parameters:
  the preprocessed steps and the validated intents that stages 0 to 2 leave in
  \<^verbatim>\<open>self.steps\<close> and \<^verbatim>\<open>self.intents\<close>, the conversion of intents to nodes
  (\<^verbatim>\<open>ASTConverter.convert_all_intents_to_ast\<close>), the check against the live page
  (\<^verbatim>\<open>dom_validator.validate_ast_sync\<close>) and the code tester.\<close>

record stages =
  sg_steps :: "step list"
  sg_intents :: "cleaned_intent list"
  sg_convert :: "cleaned_intent list \<Rightarrow> PlaywrightAST list"
  sg_validate_ast_sync :: "PlaywrightAST list \<Rightarrow> PlaywrightAST list"
  sg_test_code :: "string \<Rightarrow> test_results"

text \<open>The summary dictionary; \<open>failure_reason\<close> is \<open>None\<close> where the key is absent.\<close>

record summary =
  pipeline_status :: string
  failure_reason :: "string option"
  steps_processed :: nat
  intents_generated :: nat
  ast_nodes_created :: nat
  code_lines :: nat
  js_code_errors :: nat
  test_status :: string

text \<open>\<^verbatim>\<open>PlaywrightScriptGenerator._get_failed_summary\<close>\<close>

definition get_failed_summary ::
  "step list \<Rightarrow> cleaned_intent list \<Rightarrow> PlaywrightAST list \<Rightarrow> string \<Rightarrow> summary" where
  "get_failed_summary steps intents ast_nodes reason =
     \<lparr>pipeline_status = ''ABORTED'',
      failure_reason = Some reason,
      steps_processed = length steps,
      intents_generated = length intents,
      ast_nodes_created = length ast_nodes,
      code_lines = 0,
      js_code_errors = 0,
      test_status = ''SKIPPED''\<rparr>"

text \<open>\<^verbatim>\<open>PlaywrightScriptGenerator.get_summary\<close>, after the code tester has run.\<close>

definition get_summary ::
  "step list \<Rightarrow> cleaned_intent list \<Rightarrow> PlaywrightAST list \<Rightarrow> string \<Rightarrow> test_results \<Rightarrow> summary" where
  "get_summary steps intents ast_nodes code results =
     \<lparr>pipeline_status = (if tr_status results = ''PASS'' then ''SUCCESS'' else ''FAILED''),
      failure_reason = None,
      steps_processed = length steps,
      intents_generated = length intents,
      ast_nodes_created = length ast_nodes,
      code_lines = (if code \<noteq> [] then Suc (py_count code newline) else 0),
      js_code_errors = tr_total_errors results,
      test_status = tr_status results\<rparr>"

text \<open>\<^verbatim>\<open>PlaywrightScriptGenerator.generate_code\<close>: the new state of the emitter and
  \<^verbatim>\<open>self.generated_code\<close>.\<close>

definition generate_code ::
  "urllib \<Rightarrow> codegen \<Rightarrow> PlaywrightAST list \<Rightarrow> cleaned_intent list \<Rightarrow> codegen \<times> string" where
  "generate_code lib code_gen ast_nodes intents =
     (if ast_nodes = [] then (code_gen, [])
      else
        case generate_code_from_ast lib code_gen ast_nodes intents [] of
          (code_gen', code) \<Rightarrow>
            if code = [] \<or> length (py_strip code) = 0 then (code_gen', [])
            else (code_gen', code))"

text \<open>\<^verbatim>\<open>PlaywrightScriptGenerator.run_pipeline\<close> from the check that follows intent
  generation: the new state of the emitter and the summary.\<close>

definition run_pipeline :: "urllib \<Rightarrow> stages \<Rightarrow> codegen \<Rightarrow> bool \<Rightarrow> codegen \<times> summary" where
  "run_pipeline lib sg code_gen validate_dom =
     (let steps = sg_steps sg; intents = sg_intents sg in
      if length intents = 0
      then (code_gen, get_failed_summary steps intents [] ''No valid intents after validation'')
      else
        let ast_nodes = sg_convert sg intents in
        if length ast_nodes = 0
        then (code_gen,
              get_failed_summary steps intents ast_nodes ''No valid AST nodes after conversion'')
        else
          let ast_nodes1 = (if validate_dom then sg_validate_ast_sync sg ast_nodes else ast_nodes)
          in
          case generate_code lib code_gen ast_nodes1 intents of
            (code_gen', code) \<Rightarrow>
              if code = [] \<or> length (py_strip code) = 0
              then (code_gen', get_failed_summary steps intents ast_nodes1 ''Code generation failed'')
              else (code_gen', get_summary steps intents ast_nodes1 code (sg_test_code sg code)))"

section \<open>Initial states and derived notions used in the statements\<close>

text \<open>\<^verbatim>\<open>IntentValidator.__init__\<close> and \<^verbatim>\<open>JavaScriptCodeGenerator.__init__\<close>\<close>

definition new_validator :: validator where
  "new_validator = \<lparr>validation_errors = [], validation_warnings = []\<rparr>"

definition new_codegen :: codegen where
  "new_codegen =
     \<lparr>generated_code = [], code_warnings = [], code_errors = [],
      selector_usage_count = Map.empty, selector_index_map = Map.empty\<rparr>"

text \<open>The accepted intents of an input list: the cleaned intents of the entries that
  \<^verbatim>\<open>validate_single_intent\<close> accepts at their position, in input order.\<close>

definition accepted_intents :: "intent_obj option list \<Rightarrow> cleaned_intent list" where
  "accepted_intents intents =
     List.map_filter (\<lambda>entry. snd (validate_single_intent new_validator (snd entry) (fst entry)))
       (enumerate 0 intents)"

text \<open>The first whitespace-separated token of a string.\<close>

definition first_token :: "string \<Rightarrow> string" where
  "first_token s = takeWhile (\<lambda>c. \<not> is_space c) (dropWhile is_space s)"

text \<open>Sample data for the concrete instances: a click step without markup, an intent
  on it with a given selector, and the cleaned intent the validator makes of it at a given
  position.\<close>

definition sample_step :: step where
  "sample_step =
     \<lparr>st_is_context_event = False, st_normalized_action = ''click'',
      st_eventElement = [], st_clean_url = ''https://x.test/'', st_url = []\<rparr>"

definition sample_intent :: "string \<Rightarrow> intent_obj" where
  "sample_intent sel =
     \<lparr>i_event_type = ''click'', i_intent = ''Click on button: Go'', i_selector = sel,
      i_original_step = sample_step\<rparr>"

definition sample_cleaned :: "nat \<Rightarrow> string \<Rightarrow> cleaned_intent" where
  "sample_cleaned idx sel =
     \<lparr>c_step_index = idx, c_event_type = ''click'', c_intent = ''Click on button: Go'',
      c_selector = Some sel, c_original_step = sample_step, c_is_context_event = False\<rparr>"

text \<open>A sample node with a given action type and selector, as the converter builds it
  for an action intent.\<close>

definition sample_node :: "PlaywrightActionType \<Rightarrow> string \<Rightarrow> PlaywrightAST" where
  "sample_node a sel =
     \<lparr>n_action_type = a, n_selector = Some sel, n_value = Some [],
      n_url = Some ''https://x.test/'', n_wait_time = 5000,
      n_description = ''Sample step'', n_element_html = Some []\<rparr>"

text \<open>A sample navigation node, as the converter builds it for a navigation context
  event.\<close>

definition sample_navigate :: "string \<Rightarrow> PlaywrightAST" where
  "sample_navigate url =
     \<lparr>n_action_type = NAVIGATE, n_selector = None, n_value = None,
      n_url = Some url, n_wait_time = 5000,
      n_description = ''Navigate to Page navigation'', n_element_html = None\<rparr>"

text \<open>Sample stages for a run of the pipeline: one validated intent, converted to a
  navigation node without a URL, which the emitter rejects; the live-page check keeps
  the nodes.\<close>

definition sample_stages :: stages where
  "sample_stages =
     \<lparr>sg_steps = [sample_step],
      sg_intents = [sample_cleaned 0 ''#go''],
      sg_convert = (\<lambda>intents. map (\<lambda>c. sample_navigate []) intents),
      sg_validate_ast_sync = (\<lambda>nodes. nodes),
      sg_test_code = (\<lambda>code. \<lparr>tr_total_errors = 0, tr_status = ''PASS''\<rparr>)\<rparr>"

section \<open>Properties of the string helpers\<close>

lemma dropWhile_rev_tail:
  assumes "ys = [] \<or> \<not> P (hd ys)"
  shows "dropWhile P (rev (dropWhile P (rev ys))) = rev (dropWhile P (rev ys))"
proof (cases ys)
  case Nil
  then show ?thesis by simp
next
  case (Cons y ys')
  with assms have ny: "\<not> P y" by simp
  have "\<exists>zs. dropWhile P (rev ys' @ [y]) = zs @ [y]"
    using ny by (simp add: dropWhile_append)
  then obtain zs where "dropWhile P (rev ys' @ [y]) = zs @ [y]" by blast
  then show ?thesis using Cons ny by simp
qed

lemma py_strip_idem: "py_strip (py_strip s) = py_strip s"
proof -
  have "dropWhile is_space s = [] \<or> \<not> is_space (hd (dropWhile is_space s))"
    by (metis hd_dropWhile)
  then have "dropWhile is_space (rev (dropWhile is_space (rev (dropWhile is_space s))))
      = rev (dropWhile is_space (rev (dropWhile is_space s)))"
    by (rule dropWhile_rev_tail)
  then show ?thesis
    unfolding py_strip_def by simp
qed

section \<open>The selector grammar checker\<close>

lemma is_valid_strip: "is_valid_css_selector (py_strip s) = is_valid_css_selector s"
proof (cases "py_strip s = []")
  case True
  then show ?thesis by (simp add: is_valid_css_selector_def)
next
  case False
  then have "s \<noteq> []" by (auto simp: py_strip_def)
  with False show ?thesis
    by (simp add: is_valid_css_selector_def py_strip_idem)
qed

text \<open>
  Claim C8.  The checker is a function from the selector to a truth value: it has no
  state and does not change its argument, so checking an accepted selector again accepts
  it again.  The only normalisation it applies is stripping, on a local copy, and the
  verdict on the stripped selector is the verdict on the selector.  It rejects the empty
  string, the string of two spaces, \<^verbatim>\<open>[]\<close>, \<^verbatim>\<open><div>\<close> and \<^verbatim>\<open>p>\<close>.
\<close>

theorem is_valid_idempotent_and_rejects:
  "is_valid_css_selector (py_strip s) = is_valid_css_selector s
   \<and> \<not> is_valid_css_selector ''''
   \<and> \<not> is_valid_css_selector ''  ''
   \<and> \<not> is_valid_css_selector ''[]''
   \<and> \<not> is_valid_css_selector ''<div>''
   \<and> \<not> is_valid_css_selector ''p>''"
proof -
  have "\<not> is_valid_css_selector ''''" by code_simp
  moreover have "\<not> is_valid_css_selector ''  ''" by code_simp
  moreover have "\<not> is_valid_css_selector ''[]''" by code_simp
  moreover have "\<not> is_valid_css_selector ''<div>''" by code_simp
  moreover have "\<not> is_valid_css_selector ''p>''" by code_simp
  ultimately show ?thesis by (simp add: is_valid_strip)
qed

section \<open>Intent validation and deduplication\<close>

lemma is_duplicate_triple: "is_duplicate x y \<longleftrightarrow> triple x = triple y"
  by (auto simp: is_duplicate_def triple_def)

lemma dedup_loop_kept:
  "d \<noteq> [] \<Longrightarrow> snd (dedup_loop v d xs) = d @ drop_repeats (last d) xs"
  by (induction xs arbitrary: v d) (simp_all add: Let_def is_duplicate_triple)

lemma dedup_kept:
  "snd (deduplicate_consecutive_actions v (x # xs)) = x # drop_repeats x xs"
  by (simp add: deduplicate_consecutive_actions_def dedup_loop_kept)

lemma drop_repeats_snoc:
  "drop_repeats p (xs @ [x]) =
     (if triple x = triple (last (p # drop_repeats p xs)) then drop_repeats p xs
      else drop_repeats p xs @ [x])"
  by (induction xs arbitrary: p) auto

lemma dedup_snoc:
  "snd (deduplicate_consecutive_actions v (xs @ [x])) =
     (if xs \<noteq> [] \<and> triple x = triple (last (snd (deduplicate_consecutive_actions v xs)))
      then snd (deduplicate_consecutive_actions v xs)
      else snd (deduplicate_consecutive_actions v xs) @ [x])"
proof (cases xs)
  case Nil
  then show ?thesis by (simp add: deduplicate_consecutive_actions_def)
next
  case (Cons y ys)
  then show ?thesis
    using dedup_kept [of v y "ys @ [x]"] dedup_kept [of v y ys]
    by (simp add: drop_repeats_snoc)
qed

lemma dedup_loop_length:
  "length d \<le> length (snd (dedup_loop v d xs))
   \<and> length (snd (dedup_loop v d xs)) \<le> length d + length xs"
proof (induction xs arbitrary: v d)
  case Nil
  then show ?case by simp
next
  case (Cons x xs)
  show ?case
    using Cons.IH [where d = "d @ [x]" and v = v]
      Cons.IH [where d = d]
    by (simp add: Let_def) (metis le_SucI)
qed

lemma dedup_length:
  "length (snd (deduplicate_consecutive_actions v xs)) \<le> length xs"
  using dedup_loop_length [of "[hd xs]" v "tl xs"]
  by (cases xs) (simp_all add: deduplicate_consecutive_actions_def)

lemma validate_single_state_indep:
  "snd (validate_single_intent v obj i) = snd (validate_single_intent v' obj i)"
  by (simp add: validate_single_intent_def Let_def split: option.splits)

lemma validate_loop_lengths:
  "validate_loop v idx xs cs rs = (v', cs', rs') \<Longrightarrow>
     length cs' + length rs' = length cs + length rs + length xs"
proof (induction xs arbitrary: v idx cs rs)
  case Nil
  then show ?case by simp
next
  case (Cons x xs)
  then show ?case
    by (auto split: prod.splits option.splits)
qed

lemma validate_loop_accepted:
  "fst (snd (validate_loop v idx xs cs rs)) =
     cs @ List.map_filter
            (\<lambda>entry. snd (validate_single_intent new_validator (snd entry) (fst entry)))
            (enumerate idx xs)"
proof (induction xs arbitrary: v idx cs rs)
  case Nil
  then show ?case by (simp add: List.map_filter_simps)
next
  case (Cons x xs)
  show ?case
  proof (cases "validate_single_intent v x idx")
    case (Pair v' r)
    then have r: "snd (validate_single_intent new_validator x idx) = r"
      using validate_single_state_indep [of new_validator x idx v] by simp
    show ?thesis
      using Pair r Cons.IH
      by (cases r) (simp_all add: List.map_filter_simps)
  qed
qed

text \<open>
  Claim C10.  For every input list and every state of the validator, the report of
  \<^verbatim>\<open>validate_and_clean_intents\<close> is consistent: the input count is the length of the
  input, valid plus removed-by-validation is the input count, the count after
  deduplication is the valid count minus the deduplication removals, and the returned
  list has the length the report gives after deduplication.
\<close>

theorem report_counts_consistent:
  "(case validate_and_clean_intents self intents of
      (self', kept, r) \<Rightarrow>
        total_input_intents r = int (length intents)
        \<and> total_valid_intents r + removed_by_validation r = total_input_intents r
        \<and> total_after_dedup r = total_valid_intents r - removed_by_dedup r
        \<and> int (length kept) = total_after_dedup r
        \<and> 0 \<le> removed_by_dedup r)"
proof -
  obtain v1 cs rs where l: "validate_loop self 0 intents [] [] = (v1, cs, rs)"
    by (cases "validate_loop self 0 intents [] []") auto
  obtain v2 ds where d: "deduplicate_consecutive_actions v1 cs = (v2, ds)"
    by (cases "deduplicate_consecutive_actions v1 cs") auto
  have "length cs + length rs = length intents"
    using validate_loop_lengths [OF l] by simp
  moreover have "length ds \<le> length cs"
    using dedup_length [of v1 cs] d by simp
  ultimately show ?thesis
    using l d by (simp add: validate_and_clean_intents_def)
qed

text \<open>
  Claim C6.  An intent whose original step is a context event, or whose normalised
  action is \<^verbatim>\<open>wait\<close>, is accepted by \<^verbatim>\<open>validate_single_intent\<close> whatever its text
  and whatever selector it carries, and the cleaned intent has the empty selector.
\<close>

theorem context_intents_always_accepted:
  "st_is_context_event (i_original_step obj) \<or> st_normalized_action (i_original_step obj) = ''wait''
   \<Longrightarrow> \<exists>c. snd (validate_single_intent self (Some obj) step_index) = Some c
          \<and> c_selector c = Some []
          \<and> c_is_context_event c
          \<and> c_step_index c = step_index"
  by (simp add: validate_single_intent_def Let_def)

theorem context_intents_always_accepted_witness:
  "st_normalized_action
     (i_original_step
        \<lparr>i_event_type = ''click'', i_intent = [], i_selector = ''<<bad>>'',
         i_original_step =
           \<lparr>st_is_context_event = False, st_normalized_action = ''wait'',
            st_eventElement = [], st_clean_url = [], st_url = []\<rparr>\<rparr>) = ''wait''
   \<and> (\<exists>c. snd (validate_single_intent new_validator
               (Some \<lparr>i_event_type = ''click'', i_intent = [], i_selector = ''<<bad>>'',
                      i_original_step =
                        \<lparr>st_is_context_event = False, st_normalized_action = ''wait'',
                         st_eventElement = [], st_clean_url = [], st_url = []\<rparr>\<rparr>) 7) = Some c
          \<and> c_selector c = Some [] \<and> c_is_context_event c \<and> c_step_index c = 7)"
  using context_intents_always_accepted
    [of "\<lparr>i_event_type = ''click'', i_intent = [], i_selector = ''<<bad>>'',
         i_original_step =
           \<lparr>st_is_context_event = False, st_normalized_action = ''wait'',
            st_eventElement = [], st_clean_url = [], st_url = []\<rparr>\<rparr>" new_validator 7]
  by simp

lemma kept_is_dedup_of_accepted:
  "fst (snd (validate_and_clean_intents self intents)) =
     (case accepted_intents intents of [] \<Rightarrow> [] | a # rest \<Rightarrow> a # drop_repeats a rest)"
proof -
  obtain v1 cs rs where l: "validate_loop self 0 intents [] [] = (v1, cs, rs)"
    by (cases "validate_loop self 0 intents [] []") auto
  have cs: "cs = accepted_intents intents"
    using validate_loop_accepted [of self 0 intents "[]" "[]"] l
    by (simp add: accepted_intents_def)
  have k: "fst (snd (validate_and_clean_intents self intents))
        = snd (deduplicate_consecutive_actions v1 (accepted_intents intents))"
    using l cs by (simp add: validate_and_clean_intents_def split: prod.splits)
  show ?thesis
  proof (cases "accepted_intents intents")
    case Nil
    then show ?thesis using k by (simp add: deduplicate_consecutive_actions_def)
  next
    case (Cons a rest)
    then show ?thesis using k by (simp add: dedup_kept)
  qed
qed

text \<open>
  Claim C2.  The list \<^verbatim>\<open>validate_and_clean_intents\<close> returns is the list of accepted
  intents from which every intent is removed whose triple (event type, selector, text)
  equals that of the last retained intent before it: the code's loop computes what the
  specification's wording \<open>drop_repeats\<close> describes.  In particular the last intent of a
  list is removed exactly when its triple equals that of the last intent retained from
  the intents before it, which is not the last raw intent when that one was removed.
  Three intents with the same triple collapse to the first; where the middle one differs
  in its selector from the other two, which are the same intent, all three stay.
\<close>

theorem dedup_against_last_retained:
  "fst (snd (validate_and_clean_intents self intents)) =
     (case accepted_intents intents of [] \<Rightarrow> [] | a # rest \<Rightarrow> a # drop_repeats a rest)
   \<and> snd (deduplicate_consecutive_actions v (xs @ [x])) =
       (if xs \<noteq> [] \<and> triple x = triple (last (snd (deduplicate_consecutive_actions v xs)))
        then snd (deduplicate_consecutive_actions v xs)
        else snd (deduplicate_consecutive_actions v xs) @ [x])
   \<and> (triple b = triple a \<and> triple c = triple a
        \<longrightarrow> snd (deduplicate_consecutive_actions v [a, b, c]) = [a])
   \<and> (c_selector b \<noteq> c_selector a
        \<longrightarrow> snd (deduplicate_consecutive_actions v [a, b, a]) = [a, b, a])"
proof -
  have "triple b = triple a \<and> triple c = triple a
        \<longrightarrow> snd (deduplicate_consecutive_actions v [a, b, c]) = [a]"
    by (simp add: dedup_kept)
  moreover have "c_selector b \<noteq> c_selector a
        \<longrightarrow> snd (deduplicate_consecutive_actions v [a, b, a]) = [a, b, a]"
    by (auto simp: dedup_kept triple_def)
  ultimately show ?thesis
    using kept_is_dedup_of_accepted dedup_snoc by blast
qed

lemma accepted_sample:
  "accepted_intents
     [Some (sample_intent ''#go''), Some (sample_intent []), Some (sample_intent ''#go'')]
   = [sample_cleaned 0 ''#go'', sample_cleaned 2 ''#go'']"
  by code_simp

theorem dedup_against_last_retained_witness:
  "fst (snd (validate_and_clean_intents new_validator
        [Some (sample_intent ''#go''), Some (sample_intent []), Some (sample_intent ''#go'')]))
     = [sample_cleaned 0 ''#go'']
   \<and> triple (sample_cleaned 1 ''#go'') = triple (sample_cleaned 0 ''#go'')
   \<and> triple (sample_cleaned 2 ''#go'') = triple (sample_cleaned 0 ''#go'')
   \<and> snd (deduplicate_consecutive_actions new_validator
        [sample_cleaned 0 ''#go'', sample_cleaned 1 ''#go'', sample_cleaned 2 ''#go''])
       = [sample_cleaned 0 ''#go'']
   \<and> c_selector (sample_cleaned 1 ''.item'') \<noteq> c_selector (sample_cleaned 0 ''#go'')
   \<and> snd (deduplicate_consecutive_actions new_validator
        [sample_cleaned 0 ''#go'', sample_cleaned 1 ''.item'', sample_cleaned 0 ''#go''])
       = [sample_cleaned 0 ''#go'', sample_cleaned 1 ''.item'', sample_cleaned 0 ''#go'']"
proof -
  have t: "triple (sample_cleaned 1 ''#go'') = triple (sample_cleaned 0 ''#go'')"
    "triple (sample_cleaned 2 ''#go'') = triple (sample_cleaned 0 ''#go'')"
    by (simp_all add: triple_def sample_cleaned_def)
  have s: "c_selector (sample_cleaned 1 ''.item'') \<noteq> c_selector (sample_cleaned 0 ''#go'')"
    by (simp add: sample_cleaned_def)
  note inst = dedup_against_last_retained
    [of new_validator
        "[Some (sample_intent ''#go''), Some (sample_intent []), Some (sample_intent ''#go'')]"
        new_validator "[]" "sample_cleaned 0 ''#go''"
        "sample_cleaned 1 ''#go''" "sample_cleaned 0 ''#go''" "sample_cleaned 2 ''#go''"]
  note inst2 = dedup_against_last_retained
    [of new_validator "[]" new_validator "[]" "sample_cleaned 0 ''#go''"
        "sample_cleaned 1 ''.item''" "sample_cleaned 0 ''#go''" "sample_cleaned 0 ''#go''"]
  have k: "fst (snd (validate_and_clean_intents new_validator
        [Some (sample_intent ''#go''), Some (sample_intent []), Some (sample_intent ''#go'')]))
     = [sample_cleaned 0 ''#go'']"
    using inst t by (simp add: accepted_sample)
  show ?thesis
    using k inst inst2 t s by simp
qed

text \<open>
  Claim C9, evaluated on the code.  A click intent with no selector and no markup is
  dropped, and the reason recorded for it in \<^verbatim>\<open>removed_steps_details\<close> is the
  placeholder \<^verbatim>\<open>Unknown error\<close>: the message that names the cause is appended to the
  warnings, while the reason is read from the errors.  The sibling rejection, a
  malformed selector, records its cause.
\<close>

theorem empty_selector_reason_is_placeholder:
  "removed_steps_details (snd (snd (validate_and_clean_intents new_validator
       [Some (sample_intent [])]))) = [(0, ''Unknown error'')]
   \<and> report_validation_warnings (snd (snd (validate_and_clean_intents new_validator
       [Some (sample_intent [])]))) = [''Step 0: Empty selector for click. Skipping step.'']
   \<and> removed_steps_details (snd (snd (validate_and_clean_intents new_validator
       [Some (sample_intent ''<div>'')])))
       = [(0, ''Step 0: Malformed CSS selector '' @ [squote] @ ''<div>'' @ [squote])]"
proof -
  have "removed_steps_details (snd (snd (validate_and_clean_intents new_validator
       [Some (sample_intent [])]))) = [(0, ''Unknown error'')]"
    by code_simp
  moreover have "report_validation_warnings (snd (snd (validate_and_clean_intents new_validator
       [Some (sample_intent [])]))) = [''Step 0: Empty selector for click. Skipping step.'']"
    by code_simp
  moreover have "removed_steps_details (snd (snd (validate_and_clean_intents new_validator
       [Some (sample_intent ''<div>'')])))
       = [(0, ''Step 0: Malformed CSS selector '' @ [squote] @ ''<div>'' @ [squote])]"
    by code_simp
  ultimately show ?thesis by simp
qed

section \<open>The selector policy of the intent generator\<close>

lemma split_ws_cur:
  "cur \<noteq> [] \<Longrightarrow> split_ws cur s =
     (cur @ takeWhile (\<lambda>c. \<not> is_space c) s) # split_ws [] (dropWhile (\<lambda>c. \<not> is_space c) s)"
  by (induction s arbitrary: cur) auto

lemma split_ws_skip: "split_ws [] s = split_ws [] (dropWhile is_space s)"
  by (induction s) auto

lemma py_split_blank: "list_all is_space s \<Longrightarrow> py_split s = []"
  unfolding py_split_def by (induction s) auto

lemma py_split_first:
  assumes "\<not> list_all is_space s"
  shows "\<exists>rest. py_split s = first_token s # rest"
proof -
  from assms have "dropWhile is_space s \<noteq> []"
    by (simp add: list_all_iff dropWhile_eq_Nil_conv)
  then obtain c t where ct: "dropWhile is_space s = c # t"
    by (cases "dropWhile is_space s") auto
  then have nc: "\<not> is_space c"
    by (metis hd_dropWhile list.sel(1) list.distinct(1))
  have "py_split s = split_ws [] (c # t)"
    unfolding py_split_def using split_ws_skip [of s] ct by simp
  also have "\<dots> = split_ws [c] t" using nc by simp
  also have "\<dots> = ([c] @ takeWhile (\<lambda>c. \<not> is_space c) t)
      # split_ws [] (dropWhile (\<lambda>c. \<not> is_space c) t)"
    by (rule split_ws_cur) simp
  finally show ?thesis
    using ct nc by (simp add: first_token_def)
qed

text \<open>
  Claim C1, as amended.  \<^verbatim>\<open>_build_selector_from_hints\<close> maps the hints to one selector
  by the priority id, name, class (first token only), data-testid, aria-label, never
  combining sources: a non-empty id gives \<^verbatim>\<open>#\<close> and the id; without an id a non-empty
  name gives the attribute selector on name; without both, a class with a token gives
  \<^verbatim>\<open>.\<close> and the first token; then data-testid, then aria-label; with none of these the
  result is the empty selector, and the tag is not used.
\<close>

theorem build_selector_priority:
  "(h_id hs \<noteq> [] \<longrightarrow> build_selector_from_hints hs = ''#'' @ h_id hs)
   \<and> (h_id hs = [] \<and> h_name hs \<noteq> []
        \<longrightarrow> build_selector_from_hints hs = ''[name='' @ [squote] @ h_name hs @ [squote] @ '']'')
   \<and> (h_id hs = [] \<and> h_name hs = [] \<and> \<not> list_all is_space (h_class hs)
        \<longrightarrow> build_selector_from_hints hs = ''.'' @ first_token (h_class hs))
   \<and> (h_id hs = [] \<and> h_name hs = [] \<and> list_all is_space (h_class hs) \<and> h_test_id hs \<noteq> []
        \<longrightarrow> build_selector_from_hints hs
            = ''[data-testid='' @ [squote] @ h_test_id hs @ [squote] @ '']'')
   \<and> (h_id hs = [] \<and> h_name hs = [] \<and> list_all is_space (h_class hs) \<and> h_test_id hs = []
        \<and> h_aria_label hs \<noteq> []
        \<longrightarrow> build_selector_from_hints hs
            = ''[aria-label='' @ [squote] @ h_aria_label hs @ [squote] @ '']'')
   \<and> (h_id hs = [] \<and> h_name hs = [] \<and> list_all is_space (h_class hs) \<and> h_test_id hs = []
        \<and> h_aria_label hs = []
        \<longrightarrow> build_selector_from_hints hs = [])"
proof -
  have blank: "list_all is_space (h_class hs) \<Longrightarrow>
      (if h_class hs \<noteq> [] then py_split (h_class hs) else []) = []"
    by (simp add: py_split_blank)
  have tok: "\<not> list_all is_space (h_class hs) \<Longrightarrow>
      \<exists>rest. (if h_class hs \<noteq> [] then py_split (h_class hs) else [])
        = first_token (h_class hs) # rest"
    using py_split_first [of "h_class hs"] by auto
  show ?thesis
    using blank tok
    by (auto simp: build_selector_from_hints_def)
qed

theorem build_selector_priority_witness:
  "h_id \<lparr>h_id = ''a'', h_class = ''b'', h_name = [], h_test_id = [], h_aria_label = [],
         h_tag = ''div''\<rparr> \<noteq> []
   \<and> build_selector_from_hints
       \<lparr>h_id = ''a'', h_class = ''b'', h_name = [], h_test_id = [], h_aria_label = [],
        h_tag = ''div''\<rparr> = ''#a''
   \<and> \<not> list_all is_space
         (h_class \<lparr>h_id = [], h_class = '' b c'', h_name = [], h_test_id = ''t'',
                  h_aria_label = ''l'', h_tag = ''div''\<rparr>)
   \<and> build_selector_from_hints
       \<lparr>h_id = [], h_class = '' b c'', h_name = [], h_test_id = ''t'', h_aria_label = ''l'',
        h_tag = ''div''\<rparr> = ''.b''
   \<and> build_selector_from_hints
       \<lparr>h_id = [], h_class = [], h_name = [], h_test_id = [], h_aria_label = [],
        h_tag = ''button''\<rparr> = []"
proof -
  have f: "first_token '' b c'' = ''b''"
    by (simp add: first_token_def is_space_def code_point_def)
  have n: "\<not> list_all is_space '' b c''"
    by (simp add: is_space_def code_point_def)
  show ?thesis
    using build_selector_priority
        [of "\<lparr>h_id = ''a'', h_class = ''b'', h_name = [], h_test_id = [], h_aria_label = [],
              h_tag = ''div''\<rparr>"]
      build_selector_priority
        [of "\<lparr>h_id = [], h_class = '' b c'', h_name = [], h_test_id = ''t'',
              h_aria_label = ''l'', h_tag = ''div''\<rparr>"]
      build_selector_priority
        [of "\<lparr>h_id = [], h_class = [], h_name = [], h_test_id = [], h_aria_label = [],
              h_tag = ''button''\<rparr>"]
      f n
    by simp
qed

text \<open>
  Claim C1 as stated fails: with no id, a name and a data-testid, the result is the
  selector on the name, not on data-testid; a class outranks an aria-label; and with no
  attribute at all the result is the empty selector, not the tag.
\<close>

theorem build_selector_counterexample:
  "build_selector_from_hints
     \<lparr>h_id = [], h_class = [], h_name = ''n'', h_test_id = ''t'', h_aria_label = [],
      h_tag = ''input''\<rparr> = ''[name='' @ [squote] @ ''n'' @ [squote] @ '']''
   \<and> build_selector_from_hints
     \<lparr>h_id = [], h_class = ''b c'', h_name = [], h_test_id = [], h_aria_label = ''l'',
      h_tag = ''div''\<rparr> = ''.b''
   \<and> build_selector_from_hints
     \<lparr>h_id = [], h_class = [], h_name = [], h_test_id = [], h_aria_label = [],
      h_tag = ''button''\<rparr> = []"
  by code_simp

lemma strip_nonblank: "py_strip v \<noteq> [] \<Longrightarrow> \<not> list_all is_space v"
proof -
  assume "py_strip v \<noteq> []"
  then have "dropWhile is_space v \<noteq> []"
    unfolding py_strip_def by (cases "dropWhile is_space v") simp_all
  then show ?thesis by (simp add: list_all_iff dropWhile_eq_Nil_conv)
qed

lemma py_strip_no_space:
  assumes "list_all (\<lambda>c. \<not> is_space c) s"
  shows "py_strip s = s"
proof (cases s)
  case Nil
  then show ?thesis by (simp add: py_strip_def)
next
  case (Cons c t)
  have h: "\<not> is_space (hd s)" using assms Cons by simp
  have l: "\<not> is_space (hd (rev s))"
    using assms Cons by (metis hd_rev last_in_set list.distinct(1) list_all_iff)
  have "dropWhile is_space s = s" using h by (simp add: dropWhile_eq_self_iff)
  moreover have "dropWhile is_space (rev s) = rev s" using l by (simp add: dropWhile_eq_self_iff)
  ultimately show ?thesis by (simp add: py_strip_def)
qed

lemma alnum_not_space: "is_alnum_char c \<Longrightarrow> \<not> is_space c"
  by (auto simp: is_alnum_char_def is_ascii_letter_def is_ascii_digit_def is_space_def Let_def)

lemma tag_fallback_is_tag_match: "tag_fallback e = tag_match e"
proof (cases "tag_match e")
  case None
  then show ?thesis by (simp add: tag_fallback_def)
next
  case (Some tag)
  then obtain t where t: "tag = takeWhile is_alnum_char t" "tag \<noteq> []"
    by (auto simp: tag_match_def split: list.splits if_splits)
  have "list_all (\<lambda>c. \<not> is_space c) tag"
    unfolding t(1) list_all_iff using alnum_not_space by (auto dest: set_takeWhileD)
  then have "py_strip tag = tag" by (rule py_strip_no_space)
  then show ?thesis using Some t(2) by (simp add: tag_fallback_def)
qed

lemma first_token_nonempty: "\<not> list_all is_space v \<Longrightarrow> first_token v \<noteq> []"
proof -
  assume "\<not> list_all is_space v"
  then have "dropWhile is_space v \<noteq> []"
    by (simp add: list_all_iff dropWhile_eq_Nil_conv)
  then obtain c t where ct: "dropWhile is_space v = c # t"
    by (cases "dropWhile is_space v") auto
  then have "\<not> is_space c"
    by (metis hd_dropWhile list.sel(1) list.distinct(1))
  with ct show ?thesis by (simp add: first_token_def)
qed

lemma extract_class_step:
  assumes "has_attr e (''class='' @ [dquote])"
  shows "(case py_split (attr_value e (''class='' @ [dquote])) of
            [] \<Rightarrow> tag_fallback e
          | first_class # _ \<Rightarrow>
              if first_class \<noteq> [] then Some (''.'' @ first_class) else tag_fallback e)
         = Some (''.'' @ first_token (attr_value e (''class='' @ [dquote])))"
proof -
  let ?v = "attr_value e (''class='' @ [dquote])"
  have nb: "\<not> list_all is_space ?v"
    using assms by (simp add: has_attr_def strip_nonblank)
  then obtain rest where "py_split ?v = first_token ?v # rest"
    using py_split_first by blast
  then show ?thesis
    using first_token_nonempty [OF nb] by simp
qed

text \<open>The markup-based fallback \<^verbatim>\<open>_extract_stable_selector\<close> uses the order id,
  data-testid, name, aria-label, class (first token), tag.  An attribute is found where
  the markup contains the text of its name followed by \<^verbatim>\<open>="\<close> and the text up to the
  next double quote is not blank.\<close>

lemma extract_stable_selector_priority:
  "(st_eventElement step = [] \<longrightarrow> extract_stable_selector step = None)
   \<and> (st_eventElement step \<noteq> [] \<and> has_attr (st_eventElement step) (''id='' @ [dquote])
        \<longrightarrow> extract_stable_selector step
            = Some (''#'' @ attr_value (st_eventElement step) (''id='' @ [dquote])))
   \<and> (st_eventElement step \<noteq> [] \<and> \<not> has_attr (st_eventElement step) (''id='' @ [dquote])
        \<and> has_attr (st_eventElement step) (''data-testid='' @ [dquote])
        \<longrightarrow> extract_stable_selector step
            = Some (''[data-testid='' @ [dquote]
                    @ attr_value (st_eventElement step) (''data-testid='' @ [dquote])
                    @ [dquote] @ '']''))
   \<and> (st_eventElement step \<noteq> [] \<and> \<not> has_attr (st_eventElement step) (''id='' @ [dquote])
        \<and> \<not> has_attr (st_eventElement step) (''data-testid='' @ [dquote])
        \<and> has_attr (st_eventElement step) (''name='' @ [dquote])
        \<longrightarrow> extract_stable_selector step
            = Some (''[name='' @ [dquote]
                    @ attr_value (st_eventElement step) (''name='' @ [dquote])
                    @ [dquote] @ '']''))
   \<and> (st_eventElement step \<noteq> [] \<and> \<not> has_attr (st_eventElement step) (''id='' @ [dquote])
        \<and> \<not> has_attr (st_eventElement step) (''data-testid='' @ [dquote])
        \<and> \<not> has_attr (st_eventElement step) (''name='' @ [dquote])
        \<and> has_attr (st_eventElement step) (''aria-label='' @ [dquote])
        \<longrightarrow> extract_stable_selector step
            = Some (''[aria-label='' @ [dquote]
                    @ attr_value (st_eventElement step) (''aria-label='' @ [dquote])
                    @ [dquote] @ '']''))
   \<and> (st_eventElement step \<noteq> [] \<and> \<not> has_attr (st_eventElement step) (''id='' @ [dquote])
        \<and> \<not> has_attr (st_eventElement step) (''data-testid='' @ [dquote])
        \<and> \<not> has_attr (st_eventElement step) (''name='' @ [dquote])
        \<and> \<not> has_attr (st_eventElement step) (''aria-label='' @ [dquote])
        \<and> has_attr (st_eventElement step) (''class='' @ [dquote])
        \<longrightarrow> extract_stable_selector step
            = Some (''.'' @ first_token
                      (attr_value (st_eventElement step) (''class='' @ [dquote]))))
   \<and> (st_eventElement step \<noteq> [] \<and> \<not> has_attr (st_eventElement step) (''id='' @ [dquote])
        \<and> \<not> has_attr (st_eventElement step) (''data-testid='' @ [dquote])
        \<and> \<not> has_attr (st_eventElement step) (''name='' @ [dquote])
        \<and> \<not> has_attr (st_eventElement step) (''aria-label='' @ [dquote])
        \<and> \<not> has_attr (st_eventElement step) (''class='' @ [dquote])
        \<longrightarrow> extract_stable_selector step = tag_match (st_eventElement step))"
  using extract_class_step [of "st_eventElement step"]
  by (simp add: extract_stable_selector_def Let_def tag_fallback_is_tag_match)

section \<open>URL cleaning\<close>

text \<open>
  Claim C4, evaluated on the code.  The query \<^verbatim>\<open>ref=abc&utm_source=a&q=1&tag=z\<close>
  parses to the keys \<^verbatim>\<open>ref\<close>, \<^verbatim>\<open>utm_source\<close>, \<^verbatim>\<open>q\<close>, \<^verbatim>\<open>tag\<close>.  The filter removes
  \<^verbatim>\<open>utm_source\<close> only: no key starts with \<^verbatim>\<open>ref=\<close> or \<^verbatim>\<open>tag=\<close>, so \<^verbatim>\<open>ref\<close> and
  \<^verbatim>\<open>tag\<close> are kept.
\<close>

theorem tracking_filter_keeps_ref_and_tag:
  "\<not> is_tracking_key ''ref'' \<and> \<not> is_tracking_key ''tag''
   \<and> is_tracking_key ''utm_source''
   \<and> filtered_params
       [(''ref'', [''abc'']), (''utm_source'', [''a'']), (''q'', [''1'']), (''tag'', [''z''])]
       = [(''ref'', [''abc'']), (''q'', [''1'']), (''tag'', [''z''])]"
  by code_simp

section \<open>The code emitter\<close>

lemmas char_defs = is_space_def code_point_def is_ascii_letter_def is_ascii_digit_def
  bad_edge_char_def newline_def carriage_return_def tab_char_def dquote_def squote_def
  backslash_def

lemma join_lines_nonempty: "l \<noteq> [] \<Longrightarrow> join_lines (l # ls) \<noteq> []"
  by (cases ls) auto

lemma indent_nonempty: "indent @ s \<noteq> []"
  by (simp add: indent_def)

lemma generate_action_nonempty: "generate_action self node i occ \<noteq> []"
  unfolding generate_action_def Let_def
  by (cases "n_action_type node") (simp_all add: join_lines_nonempty indent_nonempty)

lemma initial_block_nonempty: "generate_initial_navigation_block nodes base \<noteq> []"
  unfolding generate_initial_navigation_block_def Let_def
  by (simp add: join_lines_nonempty indent_nonempty)

lemma generated_script:
  assumes "snd (validate_all_nodes_before_codegen self ast_nodes) = safe_nodes"
    and "safe_nodes \<noteq> []"
  shows "snd (generate_code_from_ast lib self ast_nodes intents first_url)
     = join_lines (script_lines lib
         (analyze_selector_usage (fst (validate_all_nodes_before_codegen self ast_nodes)) safe_nodes)
         safe_nodes intents first_url)"
proof -
  have "ast_nodes \<noteq> []"
    using assms by (auto simp: validate_all_nodes_before_codegen_def)
  moreover obtain s1 where "validate_all_nodes_before_codegen self ast_nodes = (s1, safe_nodes)"
    using assms(1) by (cases "validate_all_nodes_before_codegen self ast_nodes") auto
  ultimately show ?thesis
    using assms(2) by (simp add: generate_code_from_ast_def Let_def)
qed

lemma str_nat_small: "str_nat (Suc 0) = ''1''" "str_nat 2 = ''2''"
  by code_simp+

lemma safe_cart_nodes:
  "validate_all_nodes_before_codegen new_codegen
     [sample_navigate ''https://x.test/shop/cart'', sample_node CLICK ''#pay'']
   = (new_codegen, [sample_navigate ''https://x.test/shop/cart'', sample_node CLICK ''#pay''])"
  by (simp add: validate_all_nodes_before_codegen_def is_node_safe_for_codegen_def
      sample_navigate_def sample_node_def needs_selector_def truthy_def py_strip_def
      is_valid_selector_def re_starts_invalid_def re_ends_invalid_def
      re_html_brackets_def re_element_then_gt_def char_defs)

text \<open>
  Claim C3, evaluated on the code.  With no override and no intents, the sequence of the
  navigation node for \<^verbatim>\<open>https://x.test/shop/cart\<close> and a click node on \<^verbatim>\<open>#pay\<close>
  yields the script that consists of the header, the initial block, the click block and
  the footer.  The initial block loads \<^verbatim>\<open>https://x.test\<close>, the scheme and host of the
  first node that has a URL, not the URL of the first navigation node; that node is then
  skipped as already handled, so its URL is loaded nowhere in the script.  And where a
  click node that has a URL precedes the first navigation node, the initial URL is taken
  from the click node.
\<close>

theorem initial_navigation_drops_recorded_url:
  "first_navigate_url
       [sample_navigate ''https://x.test/shop/cart'', sample_node CLICK ''#pay'']
     = Some ''https://x.test/shop/cart''
   \<and> base_url_of emitter_lib
         [sample_navigate ''https://x.test/shop/cart'', sample_node CLICK ''#pay''] [] []
       = ''https://x.test''
   \<and> snd (generate_code_from_ast emitter_lib new_codegen
            [sample_navigate ''https://x.test/shop/cart'', sample_node CLICK ''#pay''] [] [])
       = join_lines
           (header_lines
            @ [[], ''    try {'', [],
               generate_initial_navigation_block
                 [sample_navigate ''https://x.test/shop/cart'', sample_node CLICK ''#pay'']
                 ''https://x.test'',
               [],
               generate_action
                 (analyze_selector_usage new_codegen
                    [sample_navigate ''https://x.test/shop/cart'', sample_node CLICK ''#pay''])
                 (sample_node CLICK ''#pay'') 1 0]
            @ footer_lines)
   \<and> generate_initial_navigation_block
         [sample_navigate ''https://x.test/shop/cart'', sample_node CLICK ''#pay'']
         ''https://x.test''
       = join_lines
           [indent @ ''// Initial Navigation: Load the base page'',
            indent @ ''console.log('' @ [dquote] @ ''Initial: Navigating to https://x.test...''
              @ [dquote] @ '');'',
            indent @ ''try {'',
            indent @ ''    await page.goto('' @ [dquote] @ ''https://x.test'' @ [dquote]
              @ '', { waitUntil: '' @ [dquote] @ ''load'' @ [dquote] @ '', timeout: 30000 });'',
            indent @ ''    await page.waitForTimeout(1000);'',
            indent @ ''    console.log('' @ [dquote] @ ''  [OK] Page loaded successfully''
              @ [dquote] @ '');'',
            indent @ ''} catch (error) {'',
            indent @ ''    console.warn('' @ [dquote] @ ''  [WARN] Page load warning: ''
              @ [dquote] @ '' + error.message + '' @ [dquote] @ '' (continuing anyway)''
              @ [dquote] @ '');'',
            indent @ ''}'']
   \<and> generate_action
         (analyze_selector_usage new_codegen
            [sample_navigate ''https://x.test/shop/cart'', sample_node CLICK ''#pay''])
         (sample_node CLICK ''#pay'') 1 0
       = join_lines
           [indent @ ''// Step 1: Click on element'',
            indent @ ''console.log('' @ [dquote] @ ''Step 1: Clicking on element...''
              @ [dquote] @ '');'',
            indent @ ''try {'',
            indent @ ''    const locator = page.locator('' @ [squote] @ ''#pay'' @ [squote]
              @ '').first();'',
            indent @ ''    await locator.waitFor({ state: '' @ [dquote] @ ''visible'' @ [dquote]
              @ '', timeout: 5000 });'',
            indent @ ''    await locator.click();'',
            indent @ ''    await page.waitForTimeout(500);'',
            indent @ ''    console.log('' @ [dquote] @ ''  [OK] Click action complete''
              @ [dquote] @ '');'',
            indent @ ''} catch (error) {'',
            indent @ ''    throw new Error('' @ [dquote] @ ''Click failed at step 1: ''
              @ [dquote] @ '' + error.message);'',
            indent @ ''}'']
   \<and> first_navigate_url
         [sample_node CLICK ''#go'', sample_navigate ''https://other.test/start'']
       = Some ''https://other.test/start''
   \<and> base_url_of emitter_lib
         [sample_node CLICK ''#go'', sample_navigate ''https://other.test/start''] [] []
       = ''https://x.test''"
proof -
  let ?nav = "sample_navigate ''https://x.test/shop/cart''"
  let ?click = "sample_node CLICK ''#pay''"
  let ?self = "analyze_selector_usage new_codegen [?nav, ?click]"
  have a: "first_navigate_url [?nav, ?click] = Some ''https://x.test/shop/cart''"
    by (simp add: sample_navigate_def)
  have b: "base_url_of emitter_lib [?nav, ?click] [] [] = ''https://x.test''"
    by code_simp
  have c: "snd (generate_code_from_ast emitter_lib new_codegen [?nav, ?click] [] [])
       = join_lines (script_lines emitter_lib ?self [?nav, ?click] [] [])"
    using generated_script
      [of new_codegen "[?nav, ?click]" "[?nav, ?click]" emitter_lib "[]" "[]"]
    by (simp add: safe_cart_nodes)
  have n: "n_action_type ?nav = NAVIGATE" "n_action_type ?click = CLICK"
    "n_selector ?click = Some ''#pay''"
    by (simp_all add: sample_navigate_def sample_node_def)
  have d: "emit_loop ?self Map.empty True 0 [?nav, ?click]
       = [generate_action ?self ?click 1 0]"
    by (simp add: n truthy_def Let_def generate_action_nonempty)
  have e: "script_lines emitter_lib ?self [?nav, ?click] [] []
       = header_lines
            @ [[], ''    try {'', [],
               generate_initial_navigation_block [?nav, ?click] ''https://x.test'', [],
               generate_action ?self ?click 1 0]
            @ footer_lines"
    using b d by (simp add: script_lines_def Let_def initial_block_nonempty)
  have f: "generate_initial_navigation_block [?nav, ?click] ''https://x.test''
       = join_lines
           [indent @ ''// Initial Navigation: Load the base page'',
            indent @ ''console.log('' @ [dquote] @ ''Initial: Navigating to https://x.test...''
              @ [dquote] @ '');'',
            indent @ ''try {'',
            indent @ ''    await page.goto('' @ [dquote] @ ''https://x.test'' @ [dquote]
              @ '', { waitUntil: '' @ [dquote] @ ''load'' @ [dquote] @ '', timeout: 30000 });'',
            indent @ ''    await page.waitForTimeout(1000);'',
            indent @ ''    console.log('' @ [dquote] @ ''  [OK] Page loaded successfully''
              @ [dquote] @ '');'',
            indent @ ''} catch (error) {'',
            indent @ ''    console.warn('' @ [dquote] @ ''  [WARN] Page load warning: ''
              @ [dquote] @ '' + error.message + '' @ [dquote] @ '' (continuing anyway)''
              @ [dquote] @ '');'',
            indent @ ''}'']"
    by (simp add: generate_initial_navigation_block_def initial_goto_line_def Let_def
        escape_string_def py_replace_char_def char_defs)
  have u: "selector_usage_count ?self ''#pay'' = Some 1"
    by (simp add: analyze_selector_usage_def sample_node_def sample_navigate_def
        needs_selector_def truthy_def Let_def)
  have g: "generate_action ?self ?click 1 0
       = join_lines
           [indent @ ''// Step 1: Click on element'',
            indent @ ''console.log('' @ [dquote] @ ''Step 1: Clicking on element...''
              @ [dquote] @ '');'',
            indent @ ''try {'',
            indent @ ''    const locator = page.locator('' @ [squote] @ ''#pay'' @ [squote]
              @ '').first();'',
            indent @ ''    await locator.waitFor({ state: '' @ [dquote] @ ''visible'' @ [dquote]
              @ '', timeout: 5000 });'',
            indent @ ''    await locator.click();'',
            indent @ ''    await page.waitForTimeout(500);'',
            indent @ ''    console.log('' @ [dquote] @ ''  [OK] Click action complete''
              @ [dquote] @ '');'',
            indent @ ''} catch (error) {'',
            indent @ ''    throw new Error('' @ [dquote] @ ''Click failed at step 1: ''
              @ [dquote] @ '' + error.message);'',
            indent @ ''}'']"
    using u
    by (simp add: generate_action_def get_locator_with_occurrence_def n truthy_def Let_def
        py_replace_char_def char_defs str_nat_small)
  have h: "first_navigate_url
         [sample_node CLICK ''#go'', sample_navigate ''https://other.test/start'']
       = Some ''https://other.test/start''"
    by (simp add: sample_navigate_def sample_node_def)
  have i: "base_url_of emitter_lib
         [sample_node CLICK ''#go'', sample_navigate ''https://other.test/start''] [] []
       = ''https://x.test''"
    by code_simp
  show ?thesis
    using a b c e f g h i by simp
qed

lemma safe_item:
  "is_node_safe_for_codegen s (sample_node a ''.item'') i = (s, True)"
  by (cases a)
    (simp_all add: is_node_safe_for_codegen_def sample_node_def needs_selector_def truthy_def
      py_strip_def is_valid_selector_def re_starts_invalid_def re_ends_invalid_def
      re_html_brackets_def re_element_then_gt_def char_defs)

lemma usage_item:
  "selector_usage_count (analyze_selector_usage s
      [sample_node WAIT ''.item'', sample_node CLICK ''.item'', sample_node CLICK ''.item''])
      ''.item'' = Some 2"
  by (simp add: analyze_selector_usage_def sample_node_def needs_selector_def truthy_def Let_def)

text \<open>
  Claim C5, evaluated on the code.  A wait node and two click nodes share the selector
  \<^verbatim>\<open>.item\<close>.  All three pass the re-validation; the usage count of the selector, taken
  over the click nodes, is 2; but the emission loop counts the wait node as well, so the
  two click nodes are emitted with the occurrences 1 and 2, and their locators are
  \<^verbatim>\<open>.nth(1)\<close> and \<^verbatim>\<open>.nth(2)\<close>, not \<^verbatim>\<open>.nth(0)\<close> and \<^verbatim>\<open>.nth(1)\<close>.
\<close>

theorem occurrence_counts_wait_nodes:
  "snd (validate_all_nodes_before_codegen new_codegen
          [sample_node WAIT ''.item'', sample_node CLICK ''.item'', sample_node CLICK ''.item''])
     = [sample_node WAIT ''.item'', sample_node CLICK ''.item'', sample_node CLICK ''.item'']
   \<and> selector_usage_count
         (analyze_selector_usage new_codegen
            [sample_node WAIT ''.item'', sample_node CLICK ''.item'', sample_node CLICK ''.item''])
         ''.item'' = Some 2
   \<and> emit_loop
         (analyze_selector_usage new_codegen
            [sample_node WAIT ''.item'', sample_node CLICK ''.item'', sample_node CLICK ''.item''])
         Map.empty True 0
         [sample_node WAIT ''.item'', sample_node CLICK ''.item'', sample_node CLICK ''.item'']
       = [generate_action
            (analyze_selector_usage new_codegen
               [sample_node WAIT ''.item'', sample_node CLICK ''.item'', sample_node CLICK ''.item''])
            (sample_node WAIT ''.item'') 0 0,
          generate_action
            (analyze_selector_usage new_codegen
               [sample_node WAIT ''.item'', sample_node CLICK ''.item'', sample_node CLICK ''.item''])
            (sample_node CLICK ''.item'') 1 1,
          generate_action
            (analyze_selector_usage new_codegen
               [sample_node WAIT ''.item'', sample_node CLICK ''.item'', sample_node CLICK ''.item''])
            (sample_node CLICK ''.item'') 2 2]
   \<and> get_locator_with_occurrence
         (analyze_selector_usage new_codegen
            [sample_node WAIT ''.item'', sample_node CLICK ''.item'', sample_node CLICK ''.item''])
         (Some ''.item'') 1
       = ''page.locator('' @ [squote] @ ''.item'' @ [squote] @ '').nth(1)''
   \<and> get_locator_with_occurrence
         (analyze_selector_usage new_codegen
            [sample_node WAIT ''.item'', sample_node CLICK ''.item'', sample_node CLICK ''.item''])
         (Some ''.item'') 2
       = ''page.locator('' @ [squote] @ ''.item'' @ [squote] @ '').nth(2)''"
proof -
  let ?nodes = "[sample_node WAIT ''.item'', sample_node CLICK ''.item'', sample_node CLICK ''.item'']"
  let ?self = "analyze_selector_usage new_codegen ?nodes"
  have a: "snd (validate_all_nodes_before_codegen new_codegen ?nodes) = ?nodes"
    by (simp add: validate_all_nodes_before_codegen_def safe_item)
  have b: "selector_usage_count ?self ''.item'' = Some 2"
    by (rule usage_item)
  have s: "n_selector (sample_node a ''.item'') = Some ''.item''"
    "n_action_type (sample_node a ''.item'') = a" for a
    by (simp_all add: sample_node_def)
  have c: "emit_loop ?self Map.empty True 0 ?nodes
       = [generate_action ?self (sample_node WAIT ''.item'') 0 0,
          generate_action ?self (sample_node CLICK ''.item'') 1 1,
          generate_action ?self (sample_node CLICK ''.item'') 2 2]"
    by (simp add: s truthy_def Let_def generate_action_nonempty numeral_2_eq_2)
  have d: "get_locator_with_occurrence ?self (Some ''.item'') 1
       = ''page.locator('' @ [squote] @ ''.item'' @ [squote] @ '').nth(1)''"
    using b
    by (simp add: get_locator_with_occurrence_def truthy_def Let_def py_replace_char_def
        char_defs str_nat_small)
  have e: "get_locator_with_occurrence ?self (Some ''.item'') 2
       = ''page.locator('' @ [squote] @ ''.item'' @ [squote] @ '').nth(2)''"
    using b
    by (simp add: get_locator_with_occurrence_def truthy_def Let_def py_replace_char_def
        char_defs str_nat_small)
  show ?thesis
    using a b c d e by simp
qed

lemma str_nat_zero: "str_nat 0 = ''0''"
  by code_simp

lemma unsafe_sample:
  "validate_all_nodes_before_codegen new_codegen [sample_navigate []]
   = (new_codegen
        \<lparr>code_warnings := [''Step 0: Node failed safety check, skipped from code generation''],
         code_errors := [''Step 0: Missing URL for navigate action'']\<rparr>, [])"
  by (simp add: validate_all_nodes_before_codegen_def is_node_safe_for_codegen_def
      sample_navigate_def needs_selector_def truthy_def new_codegen_def str_nat_zero)

text \<open>
  Claim C7, as amended.  Given a non-empty node list of which no node passes the
  re-validation, the emitter returns the empty text and appends the error
  \<^verbatim>\<open>No valid AST nodes passed safety checks\<close> to its error accumulator; given an empty
  node list it returns the empty text and leaves its state as it was.  The pipeline run
  ends with the status \<^verbatim>\<open>ABORTED\<close> and a failure reason that names the stage: no intent
  accepted, no node after conversion, or, where no node that reaches the emitter passes
  the re-validation, code generation failed.
\<close>

theorem empty_node_list_outcomes:
  "(ast_nodes = []
      \<longrightarrow> generate_code_from_ast lib self ast_nodes intents first_url = (self, []))
   \<and> (ast_nodes \<noteq> [] \<and> snd (validate_all_nodes_before_codegen self ast_nodes) = []
      \<longrightarrow> snd (generate_code_from_ast lib self ast_nodes intents first_url) = []
          \<and> code_errors (fst (generate_code_from_ast lib self ast_nodes intents first_url))
              = code_errors (fst (validate_all_nodes_before_codegen self ast_nodes))
                @ [''No valid AST nodes passed safety checks''])
   \<and> (sg_intents sg = []
      \<longrightarrow> snd (run_pipeline lib sg code_gen validate_dom)
          = get_failed_summary (sg_steps sg) [] [] ''No valid intents after validation'')
   \<and> (sg_intents sg \<noteq> [] \<and> sg_convert sg (sg_intents sg) = []
      \<longrightarrow> snd (run_pipeline lib sg code_gen validate_dom)
          = get_failed_summary (sg_steps sg) (sg_intents sg) []
              ''No valid AST nodes after conversion'')
   \<and> (sg_intents sg \<noteq> [] \<and> sg_convert sg (sg_intents sg) \<noteq> []
       \<and> nodes = (if validate_dom then sg_validate_ast_sync sg (sg_convert sg (sg_intents sg))
                   else sg_convert sg (sg_intents sg))
       \<and> snd (validate_all_nodes_before_codegen code_gen nodes) = []
      \<longrightarrow> snd (run_pipeline lib sg code_gen validate_dom)
          = get_failed_summary (sg_steps sg) (sg_intents sg) nodes ''Code generation failed'')
   \<and> pipeline_status (get_failed_summary steps its ns reason) = ''ABORTED''
   \<and> failure_reason (get_failed_summary steps its ns reason) = Some reason"
proof -
  have gen_empty: "snd (generate_code_from_ast lib s ns is fu) = []"
    if "snd (validate_all_nodes_before_codegen s ns) = []" for s ns "is" fu
    using that
    by (cases "validate_all_nodes_before_codegen s ns")
      (simp add: generate_code_from_ast_def)
  have 1: "ast_nodes = []
      \<longrightarrow> generate_code_from_ast lib self ast_nodes intents first_url = (self, [])"
    by (simp add: generate_code_from_ast_def)
  have 2: "ast_nodes \<noteq> [] \<and> snd (validate_all_nodes_before_codegen self ast_nodes) = []
      \<longrightarrow> snd (generate_code_from_ast lib self ast_nodes intents first_url) = []
          \<and> code_errors (fst (generate_code_from_ast lib self ast_nodes intents first_url))
              = code_errors (fst (validate_all_nodes_before_codegen self ast_nodes))
                @ [''No valid AST nodes passed safety checks'']"
    by (cases "validate_all_nodes_before_codegen self ast_nodes")
      (simp add: generate_code_from_ast_def)
  have 3: "sg_intents sg = []
      \<longrightarrow> snd (run_pipeline lib sg code_gen validate_dom)
          = get_failed_summary (sg_steps sg) [] [] ''No valid intents after validation''"
    by (simp add: run_pipeline_def Let_def)
  have 4: "sg_intents sg \<noteq> [] \<and> sg_convert sg (sg_intents sg) = []
      \<longrightarrow> snd (run_pipeline lib sg code_gen validate_dom)
          = get_failed_summary (sg_steps sg) (sg_intents sg) []
              ''No valid AST nodes after conversion''"
    by (simp add: run_pipeline_def Let_def)
  have 5: "sg_intents sg \<noteq> [] \<and> sg_convert sg (sg_intents sg) \<noteq> []
       \<and> nodes = (if validate_dom then sg_validate_ast_sync sg (sg_convert sg (sg_intents sg))
                   else sg_convert sg (sg_intents sg))
       \<and> snd (validate_all_nodes_before_codegen code_gen nodes) = []
      \<longrightarrow> snd (run_pipeline lib sg code_gen validate_dom)
          = get_failed_summary (sg_steps sg) (sg_intents sg) nodes ''Code generation failed''"
  proof (intro impI, elim conjE)
    assume a: "sg_intents sg \<noteq> []" "sg_convert sg (sg_intents sg) \<noteq> []"
      "nodes = (if validate_dom then sg_validate_ast_sync sg (sg_convert sg (sg_intents sg))
                   else sg_convert sg (sg_intents sg))"
      "snd (validate_all_nodes_before_codegen code_gen nodes) = []"
    have "snd (generate_code lib code_gen nodes (sg_intents sg)) = []"
      using gen_empty [OF a(4), of "sg_intents sg" "[]"]
      by (auto simp: generate_code_def split: prod.splits)
    then obtain cg where gc: "generate_code lib code_gen nodes (sg_intents sg) = (cg, [])"
      by (cases "generate_code lib code_gen nodes (sg_intents sg)") auto
    show "snd (run_pipeline lib sg code_gen validate_dom)
          = get_failed_summary (sg_steps sg) (sg_intents sg) nodes ''Code generation failed''"
    proof (cases validate_dom)
      case True
      with a(3) have n: "sg_validate_ast_sync sg (sg_convert sg (sg_intents sg)) = nodes"
        by simp
      show ?thesis
        using a(1,2) True gc by (simp add: run_pipeline_def Let_def n)
    next
      case False
      with a(3) have n: "sg_convert sg (sg_intents sg) = nodes"
        by simp
      show ?thesis
        using a(1) a(2) False gc by (simp add: run_pipeline_def Let_def n)
    qed
  qed
  have 6: "pipeline_status (get_failed_summary steps its ns reason) = ''ABORTED''
   \<and> failure_reason (get_failed_summary steps its ns reason) = Some reason"
    by (simp add: get_failed_summary_def)
  from 1 2 3 4 5 6 show ?thesis by blast
qed

text \<open>
  Claim C7 as stated fails on the empty node list, the case of every intent rejected
  upstream: the emitter returns the empty text and records no error.
\<close>

theorem empty_node_list_counterexample:
  "snd (generate_code_from_ast emitter_lib new_codegen [] [] []) = []
   \<and> code_errors (fst (generate_code_from_ast emitter_lib new_codegen [] [] [])) = []"
  by (simp add: generate_code_from_ast_def new_codegen_def)

theorem empty_node_list_outcomes_witness:
  "[sample_navigate []] \<noteq> []
   \<and> snd (validate_all_nodes_before_codegen new_codegen [sample_navigate []]) = []
   \<and> snd (generate_code_from_ast emitter_lib new_codegen [sample_navigate []] [] []) = []
   \<and> code_errors (fst (generate_code_from_ast emitter_lib new_codegen
                          [sample_navigate []] [] []))
       = [''Step 0: Missing URL for navigate action'',
          ''No valid AST nodes passed safety checks'']
   \<and> sg_intents sample_stages \<noteq> []
   \<and> sg_convert sample_stages (sg_intents sample_stages) = [sample_navigate []]
   \<and> snd (run_pipeline emitter_lib sample_stages new_codegen True)
       = get_failed_summary [sample_step] [sample_cleaned 0 ''#go'']
           [sample_navigate []] ''Code generation failed''"
proof -
  let ?n = "sample_navigate []"
  have v: "snd (validate_all_nodes_before_codegen new_codegen [?n]) = []"
    "code_errors (fst (validate_all_nodes_before_codegen new_codegen [?n]))
       = [''Step 0: Missing URL for navigate action'']"
    by (simp_all add: unsafe_sample)
  have s: "sg_intents sample_stages \<noteq> []"
    "sg_convert sample_stages (sg_intents sample_stages) = [?n]"
    "sg_validate_ast_sync sample_stages [?n] = [?n]"
    "sg_steps sample_stages = [sample_step]"
    "sg_intents sample_stages = [sample_cleaned 0 ''#go'']"
    by (simp_all add: sample_stages_def)
  note inst = empty_node_list_outcomes
    [where ast_nodes = "[?n]" and lib = emitter_lib and self = new_codegen
       and intents = "[]" and first_url = "[]" and sg = sample_stages
       and code_gen = new_codegen and validate_dom = True and nodes = "[?n]"]
  show ?thesis
    using inst v s by simp
qed

end
